theory Spec2Isabelle
  imports Complex_Main "HOL-Library.Sublist"
begin

section \<open>Python values, tables and the object store\<close>

text \<open>
  The module \<^verbatim>\<open>data_loader.py\<close> holds three pandas tables on a \<^verbatim>\<open>DataLoader\<close> object.
  A table cell is a Python value. The values that matter here are \<^verbatim>\<open>None\<close>/NaN/NaT
  (one null value), booleans, numbers (idealised as rationals, with the two infinities
  of a float beside them: \<open>PInf True\<close> is the negative one), text, timestamps, lists and
  dicts. A \<open>char\<close> stands for the code point of the same number.
\<close>

datatype date = Date (year: int) (month: nat) (day: nat)

datatype pyval =
    PNone
  | PBool bool
  | PNum rat
  | PInf bool
  | PStr string
  | PDate date
  | PList "pyval list"
  | PDict "(string \<times> pyval) list"

text \<open>
  A \<^verbatim>\<open>DataFrame\<close>: its column labels in order, and its rows. A row gives the cell under
  each label; only the labels listed in \<open>columns\<close> belong to the table. Columns are
  sequences of Python objects (object dtype), and labels are not repeated.
\<close>

type_synonym row = "string \<Rightarrow> pyval"

record dataframe =
  columns :: "string list"
  rows :: "row list"

text \<open>
  Exceptions are values. \<^verbatim>\<open>JSONDecodeError\<close> carries the text that failed to parse,
  \<^verbatim>\<open>ReError\<close> the pattern that failed to compile.
\<close>

datatype error =
    ValueError string
  | JSONDecodeError string
  | KeyError string
  | AttributeError string
  | ReError string

text \<open>
  Tables are objects: the loader stores references, and \<^verbatim>\<open>df[col] = ...\<close> writes into the
  object the caller passed. The store maps a reference to the table it currently holds.
\<close>

type_synonym ref = nat

record data_loader =
  bond_details :: "ref option"
  cashflow_details :: "ref option"
  company_insights :: "ref option"

record world =
  heap :: "ref \<Rightarrow> dataframe"
  loader :: data_loader

text \<open>\<^verbatim>\<open>DataLoader.__init__\<close>: nothing is loaded. (The logger is write-only and left out.)\<close>

definition init :: data_loader where
  "init = \<lparr>bond_details = None, cashflow_details = None, company_insights = None\<rparr>"

section \<open>Python and pandas primitives\<close>

text \<open>\<^verbatim>\<open>sep.join(xs)\<close>.\<close>

fun join :: "string \<Rightarrow> string list \<Rightarrow> string" where
  "join sep [] = []"
| "join sep [x] = x"
| "join sep (x # y # ys) = x @ sep @ join sep (y # ys)"

text \<open>\<^verbatim>\<open>str.isspace\<close> on one character, and \<^verbatim>\<open>str.strip()\<close>.\<close>

definition isspace :: "char \<Rightarrow> bool" where
  "isspace c = (let n = (of_char c :: nat) in
     (9 \<le> n \<and> n \<le> 13) \<or> (28 \<le> n \<and> n \<le> 32) \<or> n = 133 \<or> n = 160)"

definition strip :: "string \<Rightarrow> string" where
  "strip s = rev (dropWhile isspace (rev (dropWhile isspace s)))"

text \<open>\<^verbatim>\<open>df[col]\<close> read as a column, and \<^verbatim>\<open>df[col] = values\<close> for a label that exists.\<close>

definition getitem :: "string \<Rightarrow> dataframe \<Rightarrow> pyval list" where
  "getitem col df = map (\<lambda>r. r col) (rows df)"

definition setitem :: "string \<Rightarrow> pyval list \<Rightarrow> dataframe \<Rightarrow> dataframe" where
  "setitem col vs df = df\<lparr>rows := map (\<lambda>(r, v). r(col := v)) (zip (rows df) vs)\<rparr>"

text \<open>
  \<^verbatim>\<open>Series.apply(f)\<close> for an \<open>f\<close> that may raise: the cells are visited in row order and
  the first exception leaves the call; no new column has been built yet.
\<close>

fun apply_series :: "('a \<Rightarrow> error + 'b) \<Rightarrow> 'a list \<Rightarrow> error + 'b list" where
  "apply_series f [] = Inr []"
| "apply_series f (x # xs) =
     (case f x of
        Inl e \<Rightarrow> Inl e
      | Inr y \<Rightarrow> (case apply_series f xs of Inl e \<Rightarrow> Inl e | Inr ys \<Rightarrow> Inr (y # ys)))"

text \<open>
  \<^verbatim>\<open>[col for col in required_columns if col not in df.columns]\<close>, and the message of the
  \<^verbatim>\<open>ValueError\<close> raised when that list is not empty.
\<close>

definition missing_cols :: "string list \<Rightarrow> dataframe \<Rightarrow> string list" where
  "missing_cols required_columns df = filter (\<lambda>col. col \<notin> set (columns df)) required_columns"

definition missing_error :: "string list \<Rightarrow> error" where
  "missing_error cols = ValueError (''Missing required columns: '' @ join '', '' cols)"

section \<open>Loading\<close>

subsection \<open>Structured-text columns\<close>

text \<open>
  The lambda of both JSON loops:
  \<^verbatim>\<open>json.loads(x) if isinstance(x, str) and x.strip() else {}\<close>.
  \<^verbatim>\<open>json.loads\<close> is the library's; it is the parameter \<open>loads\<close>, which gives \<open>None\<close> where
  the library raises \<^verbatim>\<open>JSONDecodeError\<close>.
\<close>

definition json_cell :: "(string \<Rightarrow> pyval option) \<Rightarrow> pyval \<Rightarrow> error + pyval" where
  "json_cell loads x =
     (case x of
        PStr s \<Rightarrow>
          (if strip s \<noteq> [] then
             (case loads s of Some v \<Rightarrow> Inr v | None \<Rightarrow> Inl (JSONDecodeError s))
           else Inr (PDict []))
      | _ \<Rightarrow> Inr (PDict []))"

text \<open>
  \<^verbatim>\<open>for col in json_columns: if col in df.columns: df[col] = df[col].apply(...)\<close>.
  The table is changed column by column; an exception leaves the loop with the columns
  already assigned still changed.
\<close>

fun parse_json_columns ::
  "(string \<Rightarrow> pyval option) \<Rightarrow> string list \<Rightarrow> dataframe \<Rightarrow> (error + unit) \<times> dataframe" where
  "parse_json_columns loads [] df = (Inr (), df)"
| "parse_json_columns loads (col # cols) df =
     (if col \<in> set (columns df) then
        (case apply_series (json_cell loads) (getitem col df) of
           Inl e \<Rightarrow> (Inl e, df)
         | Inr vs \<Rightarrow> parse_json_columns loads cols (setitem col vs df))
      else parse_json_columns loads cols df)"

subsection \<open>Bonds\<close>

definition bond_required_columns :: "string list" where
  "bond_required_columns =
     [''isin'', ''company_name'', ''issue_size'', ''allotment_date'', ''maturity_date'',
      ''issuer_details'', ''instrument_details'', ''coupon_details'']"

definition bond_json_columns :: "string list" where
  "bond_json_columns =
     [''issuer_details'', ''instrument_details'', ''coupon_details'',
      ''redemption_details'', ''credit_rating_details'', ''listing_details'']"

text \<open>
  \<^verbatim>\<open>load_bond_data(self, df)\<close>. The \<^verbatim>\<open>except\<close> clause logs and re-raises, so the exception
  reaches the caller as it was raised.
\<close>

definition load_bond_data ::
  "(string \<Rightarrow> pyval option) \<Rightarrow> ref \<Rightarrow> world \<Rightarrow> (error + unit) \<times> world" where
  "load_bond_data loads df w =
     (let missing = missing_cols bond_required_columns (heap w df) in
      if missing \<noteq> [] then (Inl (missing_error missing), w)
      else
        (case parse_json_columns loads bond_json_columns (heap w df) of
           (Inl e, d) \<Rightarrow> (Inl e, w\<lparr>heap := (heap w)(df := d)\<rparr>)
         | (Inr u, d) \<Rightarrow>
             (Inr (), w\<lparr>heap := (heap w)(df := d),
                        loader := (loader w)\<lparr>bond_details := Some df\<rparr>\<rparr>)))"

subsection \<open>What pandas reads as a date and as a number\<close>

text \<open>
  The two library calls of the cashflow load, on one cell. Both readers work on the
  characters of a text; \<^verbatim>\<open>isdigit\<close> and \<^verbatim>\<open>isspace_ascii\<close> are those of the ASCII range,
  and \<open>int_of_digits\<close> is \<^verbatim>\<open>int\<close> on a text of digits.
\<close>

definition isdigit :: "char \<Rightarrow> bool" where
  "isdigit c = (let n = (of_char c :: nat) in 48 \<le> n \<and> n \<le> 57)"

definition digit_value :: "char \<Rightarrow> nat" where
  "digit_value c = of_char c - 48"

definition int_of_digits :: "string \<Rightarrow> nat" where
  "int_of_digits ds = foldl (\<lambda>n c. 10 * n + digit_value c) 0 ds"

definition isspace_ascii :: "char \<Rightarrow> bool" where
  "isspace_ascii c = (let n = (of_char c :: nat) in (9 \<le> n \<and> n \<le> 13) \<or> n = 32)"

text \<open>
  \<^verbatim>\<open>format='%d-%m-%Y'\<close>. The format is compiled to a regular expression with one group
  for each directive, and the whole text has to match it:
  \<^verbatim>\<open>%d\<close> is \<^verbatim>\<open>3[0-1]|[1-2]\d|0[1-9]|[1-9]| [1-9]\<close>,
  \<^verbatim>\<open>%m\<close> is \<^verbatim>\<open>1[0-2]|0[1-9]|[1-9]\<close> and \<^verbatim>\<open>%Y\<close> is \<^verbatim>\<open>\d\d\d\d\<close>.
  No directive matches a hyphen, so the day is the text before the first hyphen, the
  month the text between the first and the second, and the year all that follows.
\<close>

definition day_directive :: "string \<Rightarrow> nat option" where
  "day_directive t =
     (case t of
        [b] \<Rightarrow> if isdigit b \<and> b \<noteq> CHR ''0'' then Some (digit_value b) else None
      | [a, b] \<Rightarrow>
          if a = CHR '' '' then
            (if isdigit b \<and> b \<noteq> CHR ''0'' then Some (digit_value b) else None)
          else if isdigit a \<and> isdigit b \<and> 1 \<le> int_of_digits [a, b] \<and>
                  int_of_digits [a, b] \<le> 31
          then Some (int_of_digits [a, b]) else None
      | _ \<Rightarrow> None)"

definition month_directive :: "string \<Rightarrow> nat option" where
  "month_directive t =
     (case t of
        [b] \<Rightarrow> if isdigit b \<and> b \<noteq> CHR ''0'' then Some (digit_value b) else None
      | [a, b] \<Rightarrow>
          if isdigit a \<and> isdigit b \<and> 1 \<le> int_of_digits [a, b] \<and>
             int_of_digits [a, b] \<le> 12
          then Some (int_of_digits [a, b]) else None
      | _ \<Rightarrow> None)"

definition year_directive :: "string \<Rightarrow> nat option" where
  "year_directive t =
     (if length t = 4 \<and> list_all isdigit t then Some (int_of_digits t) else None)"

definition split_hyphen :: "string \<Rightarrow> (string \<times> string) option" where
  "split_hyphen s =
     (case dropWhile (\<lambda>c. c \<noteq> CHR ''-'') s of
        [] \<Rightarrow> None
      | c # rest \<Rightarrow> Some (takeWhile (\<lambda>c. c \<noteq> CHR ''-'') s, rest))"

text \<open>
  The three numbers have to name a day of the calendar (\<^verbatim>\<open>datetime.date\<close> raises
  \<^verbatim>\<open>ValueError\<close> otherwise, and knows the years 1 to 9999).
\<close>

definition leap :: "nat \<Rightarrow> bool" where
  "leap y = (y mod 4 = 0 \<and> (y mod 100 \<noteq> 0 \<or> y mod 400 = 0))"

definition days_in_month :: "nat \<Rightarrow> nat \<Rightarrow> nat" where
  "days_in_month y m =
     (if m = 2 then (if leap y then 29 else 28)
      else if m = 4 \<or> m = 6 \<or> m = 9 \<or> m = 11 then 30
      else 31)"

definition valid_date :: "nat \<Rightarrow> nat \<Rightarrow> nat \<Rightarrow> bool" where
  "valid_date y m d =
     (1 \<le> y \<and> y \<le> 9999 \<and> 1 \<le> m \<and> m \<le> 12 \<and> 1 \<le> d \<and> d \<le> days_in_month y m)"

definition strptime_dmy :: "string \<Rightarrow> date option" where
  "strptime_dmy s =
     (case split_hyphen s of
        None \<Rightarrow> None
      | Some (dt, s1) \<Rightarrow>
          (case split_hyphen s1 of
             None \<Rightarrow> None
           | Some (mt, yt) \<Rightarrow>
               (case (day_directive dt, month_directive mt, year_directive yt) of
                  (Some d, Some m, Some y) \<Rightarrow>
                    if valid_date y m d then Some (Date (int y) m d) else None
                | _ \<Rightarrow> None)))"

text \<open>
  The timestamps that \<^verbatim>\<open>to_datetime\<close> makes are signed 64-bit counts of nanoseconds since
  1 January 1970 (\<^verbatim>\<open>datetime64[ns]\<close>, the resolution of pandas 1 and 2), so the days
  they hold run from 22 September 1677 to 11 April 2262. A date outside raises
  \<^verbatim>\<open>OutOfBoundsDatetime\<close>, which \<^verbatim>\<open>errors='coerce'\<close> turns into the null value like any
  other failure.
\<close>

definition date_le :: "date \<Rightarrow> date \<Rightarrow> bool" where
  "date_le a b =
     (year a < year b \<or>
      (year a = year b \<and> (month a < month b \<or> (month a = month b \<and> day a \<le> day b))))"

definition timestamp_range :: "date \<Rightarrow> bool" where
  "timestamp_range d = (date_le (Date 1677 9 22) d \<and> date_le d (Date 2262 4 11))"

text \<open>
  What \<^verbatim>\<open>pd.to_datetime(..., format='%d-%m-%Y')\<close> reads in a cell: a text through the
  format, a timestamp as it is. Of any other value that is not null the library takes
  \<^verbatim>\<open>str(x)\<close>, and no number, boolean, list or dict is written as a day, a hyphen, a
  month, a hyphen and a year.
\<close>

definition pandas_strptime :: "pyval \<Rightarrow> date option" where
  "pandas_strptime x =
     (case x of
        PStr s \<Rightarrow>
          (case strptime_dmy s of
             Some d \<Rightarrow> if timestamp_range d then Some d else None
           | None \<Rightarrow> None)
      | PDate d \<Rightarrow> if timestamp_range d then Some d else None
      | _ \<Rightarrow> None)"

text \<open>
  \<^verbatim>\<open>pd.to_numeric\<close> hands a text to the C function \<^verbatim>\<open>precise_xstrtod\<close>, which reads a
  C string (the text up to its first NUL character): white space, an optional sign,
  digits, an optional point with more digits, at least one digit in all, an optional
  exponent \<^verbatim>\<open>e\<close> or \<^verbatim>\<open>E\<close> with an optional sign and at least one digit, white space,
  and then nothing more. Numbers are exact rationals here, so the rounding of the value
  to a 64-bit float is left out.
\<close>

definition c_string :: "string \<Rightarrow> string" where
  "c_string s = takeWhile (\<lambda>c. c \<noteq> CHR 0x00) s"

definition read_sign :: "string \<Rightarrow> bool \<times> string" where
  "read_sign s =
     (case s of
        [] \<Rightarrow> (False, [])
      | c # r \<Rightarrow>
          if c = CHR ''-'' then (True, r) else if c = CHR ''+'' then (False, r) else (False, s))"

definition read_exponent :: "string \<Rightarrow> (rat \<times> string) option" where
  "read_exponent s =
     (case s of
        [] \<Rightarrow> Some (1, [])
      | c # r \<Rightarrow>
          if c = CHR ''e'' \<or> c = CHR ''E'' then
            (let (negative, t) = read_sign r;
                 n = int_of_digits (takeWhile isdigit t)
             in if takeWhile isdigit t = [] then None
                else Some (if negative then 1 / 10 ^ n else 10 ^ n, dropWhile isdigit t))
          else Some (1, s))"

definition precise_xstrtod :: "string \<Rightarrow> rat option" where
  "precise_xstrtod s =
     (let (negative, t) = read_sign (dropWhile isspace_ascii (c_string s));
          ip = takeWhile isdigit t;
          t1 = dropWhile isdigit t;
          (fp, t2) =
            (case t1 of
               [] \<Rightarrow> ([], [])
             | c # r \<Rightarrow>
                 if c = CHR ''.'' then (takeWhile isdigit r, dropWhile isdigit r)
                 else ([], t1));
          number = of_nat (int_of_digits (ip @ fp)) / 10 ^ length fp
      in if ip = [] \<and> fp = [] then None
         else
           (case read_exponent t2 of
              None \<Rightarrow> None
            | Some (scale, t3) \<Rightarrow>
                if dropWhile isspace_ascii t3 = []
                then Some ((if negative then - number else number) * scale)
                else None))"

text \<open>
  A text that \<^verbatim>\<open>precise_xstrtod\<close> refuses is still a number if it is one of the names of
  infinity, in any case of letters. Other values: a number stays, a boolean counts as
  1 or 0 (in a column of booleans alone it stays a boolean, which Python holds equal to
  1 or 0), and a timestamp, a list or a dict is no number.
\<close>

definition tolower_ascii :: "char \<Rightarrow> char" where
  "tolower_ascii c =
     (let n = (of_char c :: nat) in if 65 \<le> n \<and> n \<le> 90 then char_of (n + 32) else c)"

definition infinity_literal :: "string \<Rightarrow> bool option" where
  "infinity_literal s =
     (let t = map tolower_ascii (c_string s) in
      if t = ''inf'' \<or> t = ''+inf'' \<or> t = ''infinity'' \<or> t = ''+infinity'' then Some False
      else if t = ''-inf'' \<or> t = ''-infinity'' then Some True
      else None)"

definition pandas_number :: "pyval \<Rightarrow> pyval option" where
  "pandas_number x =
     (case x of
        PNum n \<Rightarrow> Some (PNum n)
      | PInf negative \<Rightarrow> Some (PInf negative)
      | PBool b \<Rightarrow> Some (PNum (if b then 1 else 0))
      | PStr s \<Rightarrow>
          (case precise_xstrtod s of
             Some n \<Rightarrow> Some (PNum n)
           | None \<Rightarrow> map_option PInf (infinity_literal s))
      | _ \<Rightarrow> None)"

subsection \<open>Cashflows\<close>

text \<open>
  \<^verbatim>\<open>pd.to_datetime(series, format='%d-%m-%Y', errors='coerce')\<close> and
  \<^verbatim>\<open>pd.to_numeric(series, errors='coerce')\<close> on one cell. The reader is an argument
  (\<open>None\<close> where it cannot convert), \<open>pandas_strptime\<close> and \<open>pandas_number\<close> in the
  program; \<^verbatim>\<open>errors='coerce'\<close> turns a failure into the null value instead of an
  exception.
\<close>

definition to_datetime :: "(pyval \<Rightarrow> date option) \<Rightarrow> pyval \<Rightarrow> pyval" where
  "to_datetime strptime x = (case strptime x of Some d \<Rightarrow> PDate d | None \<Rightarrow> PNone)"

definition to_numeric :: "(pyval \<Rightarrow> pyval option) \<Rightarrow> pyval \<Rightarrow> pyval" where
  "to_numeric number x = (case number x of Some v \<Rightarrow> v | None \<Rightarrow> PNone)"

text \<open>\<^verbatim>\<open>for col in cols: if col in df.columns: df[col] = convert(df[col])\<close>.\<close>

fun convert_columns :: "(pyval \<Rightarrow> pyval) \<Rightarrow> string list \<Rightarrow> dataframe \<Rightarrow> dataframe" where
  "convert_columns f [] df = df"
| "convert_columns f (col # cols) df =
     (if col \<in> set (columns df)
      then convert_columns f cols (setitem col (map f (getitem col df)) df)
      else convert_columns f cols df)"

definition cashflow_required_columns :: "string list" where
  "cashflow_required_columns = [''isin'', ''cash_flow_date'', ''cash_flow_amount'']"

definition date_columns :: "string list" where
  "date_columns = [''cash_flow_date'', ''record_date'']"

definition numeric_columns :: "string list" where
  "numeric_columns =
     [''cash_flow_amount'', ''principal_amount'', ''interest_amount'', ''tds_amount'',
      ''remaining_principal'']"

definition load_cashflow_data ::
  "(pyval \<Rightarrow> date option) \<Rightarrow> (pyval \<Rightarrow> pyval option) \<Rightarrow> ref \<Rightarrow> world \<Rightarrow> (error + unit) \<times> world" where
  "load_cashflow_data strptime number df w =
     (let missing = missing_cols cashflow_required_columns (heap w df) in
      if missing \<noteq> [] then (Inl (missing_error missing), w)
      else
        (let d1 = convert_columns (to_datetime strptime) date_columns (heap w df);
             d2 = convert_columns (to_numeric number) numeric_columns d1
         in (Inr (), w\<lparr>heap := (heap w)(df := d2),
                       loader := (loader w)\<lparr>cashflow_details := Some df\<rparr>\<rparr>)))"

subsection \<open>Company insights\<close>

definition company_required_columns :: "string list" where
  "company_required_columns = [''company_name'', ''company_industry'']"

definition company_json_columns :: "string list" where
  "company_json_columns =
     [''key_metrics'', ''income_statement'', ''balance_sheet'', ''cashflow'', ''lenders_profile'']"

definition load_company_data ::
  "(string \<Rightarrow> pyval option) \<Rightarrow> ref \<Rightarrow> world \<Rightarrow> (error + unit) \<times> world" where
  "load_company_data loads df w =
     (let missing = missing_cols company_required_columns (heap w df) in
      if missing \<noteq> [] then (Inl (missing_error missing), w)
      else
        (case parse_json_columns loads company_json_columns (heap w df) of
           (Inl e, d) \<Rightarrow> (Inl e, w\<lparr>heap := (heap w)(df := d)\<rparr>)
         | (Inr u, d) \<Rightarrow>
             (Inr (), w\<lparr>heap := (heap w)(df := d),
                        loader := (loader w)\<lparr>company_insights := Some df\<rparr>\<rparr>)))"

section \<open>Retrieval\<close>

text \<open>
  \<^verbatim>\<open>df[df['isin'] == isin]\<close>: a new table with the rows whose cell equals the text. A
  label that is not a column raises \<^verbatim>\<open>KeyError\<close>.
\<close>

definition filter_isin :: "string \<Rightarrow> dataframe \<Rightarrow> error + dataframe" where
  "filter_isin isin df =
     (if ''isin'' \<in> set (columns df)
      then Inr (df\<lparr>rows := filter (\<lambda>r. r ''isin'' = PStr isin) (rows df)\<rparr>)
      else Inl (KeyError ''isin''))"

text \<open>
  \<^verbatim>\<open>get_bond_details(self, isin=None)\<close>. The argument is optional; \<^verbatim>\<open>if isin:\<close> is false
  for \<^verbatim>\<open>None\<close> and for the empty text.
\<close>

definition get_bond_details :: "string option \<Rightarrow> world \<Rightarrow> error + dataframe" where
  "get_bond_details isin w =
     (case bond_details (loader w) of
        None \<Rightarrow> Inl (ValueError ''Bond data not loaded'')
      | Some a \<Rightarrow>
          (case isin of
             None \<Rightarrow> Inr (heap w a)
           | Some s \<Rightarrow> if s \<noteq> [] then filter_isin s (heap w a) else Inr (heap w a)))"

definition get_cashflow_details :: "string option \<Rightarrow> world \<Rightarrow> error + dataframe" where
  "get_cashflow_details isin w =
     (case cashflow_details (loader w) of
        None \<Rightarrow> Inl (ValueError ''Cashflow data not loaded'')
      | Some a \<Rightarrow>
          (case isin of
             None \<Rightarrow> Inr (heap w a)
           | Some s \<Rightarrow> if s \<noteq> [] then filter_isin s (heap w a) else Inr (heap w a)))"

text \<open>
  The \<^verbatim>\<open>.str\<close> accessor refuses a column whose values, nulls aside, are all numbers, all
  booleans or all timestamps (\<^verbatim>\<open>AttributeError\<close>).
\<close>

definition str_accessor_ok :: "pyval list \<Rightarrow> bool" where
  "str_accessor_ok vs =
     (let xs = filter (\<lambda>v. v \<noteq> PNone) vs in
      xs = [] \<or>
      \<not> (list_all (\<lambda>v. case v of PNum n \<Rightarrow> True | PInf b \<Rightarrow> True | _ \<Rightarrow> False) xs \<or>
         list_all (\<lambda>v. case v of PBool b \<Rightarrow> True | _ \<Rightarrow> False) xs \<or>
         list_all (\<lambda>v. case v of PDate d \<Rightarrow> True | _ \<Rightarrow> False) xs))"

text \<open>
  \<^verbatim>\<open>series.str.contains(pat, case=False, na=False)\<close>: the pattern is compiled as a regular
  expression that ignores case, then searched in every cell that is text; any other cell
  counts as no match. The regular-expression engine is the library's: \<open>re_compile\<close> gives
  \<open>None\<close> where compiling raises, and otherwise the search predicate of the pattern.
\<close>

definition str_contains ::
  "(string \<Rightarrow> (string \<Rightarrow> bool) option) \<Rightarrow> string \<Rightarrow> pyval list \<Rightarrow> error + bool list" where
  "str_contains re_compile pat vs =
     (if \<not> str_accessor_ok vs
      then Inl (AttributeError ''Can only use .str accessor with string values!'')
      else
        (case re_compile pat of
           None \<Rightarrow> Inl (ReError pat)
         | Some found \<Rightarrow>
             Inr (map (\<lambda>v. case v of PStr s \<Rightarrow> found s | _ \<Rightarrow> False) vs)))"

text \<open>\<^verbatim>\<open>df[mask]\<close> for a boolean mask with one entry per row.\<close>

definition select_rows :: "bool list \<Rightarrow> dataframe \<Rightarrow> dataframe" where
  "select_rows keep df = df\<lparr>rows := map fst (filter snd (zip (rows df) keep))\<rparr>"

definition get_company_insights ::
  "(string \<Rightarrow> (string \<Rightarrow> bool) option) \<Rightarrow> string option \<Rightarrow> world \<Rightarrow> error + dataframe" where
  "get_company_insights re_compile company_name w =
     (case company_insights (loader w) of
        None \<Rightarrow> Inl (ValueError ''Company data not loaded'')
      | Some a \<Rightarrow>
          (case company_name of
             None \<Rightarrow> Inr (heap w a)
           | Some pat \<Rightarrow>
               if pat \<noteq> [] then
                 (if ''company_name'' \<in> set (columns (heap w a)) then
                    (case str_contains re_compile pat (getitem ''company_name'' (heap w a)) of
                       Inl e \<Rightarrow> Inl e
                     | Inr keep \<Rightarrow> Inr (select_rows keep (heap w a)))
                  else Inl (KeyError ''company_name''))
               else Inr (heap w a)))"

section \<open>The stored tables and sequences of calls\<close>

text \<open>The table behind each attribute of the loader, when the attribute is set.\<close>

definition bond_table :: "world \<Rightarrow> dataframe option" where
  "bond_table w = map_option (heap w) (bond_details (loader w))"

definition cashflow_table :: "world \<Rightarrow> dataframe option" where
  "cashflow_table w = map_option (heap w) (cashflow_details (loader w))"

definition company_table :: "world \<Rightarrow> dataframe option" where
  "company_table w = map_option (heap w) (company_insights (loader w))"

text \<open>
  A caller makes load calls one after the other, catching the exceptions. \<open>target\<close> is
  the table a call is given, \<open>run\<close> gives the world after the calls, and \<open>loaded\<close> says
  whether a call chosen by \<open>kind\<close> returned without raising on the way.
\<close>

datatype call = LoadBond ref | LoadCashflow ref | LoadCompany ref

fun is_bond :: "call \<Rightarrow> bool" where
  "is_bond (LoadBond df) = True"
| "is_bond c = False"

fun is_cashflow :: "call \<Rightarrow> bool" where
  "is_cashflow (LoadCashflow df) = True"
| "is_cashflow c = False"

fun is_company :: "call \<Rightarrow> bool" where
  "is_company (LoadCompany df) = True"
| "is_company c = False"

fun target :: "call \<Rightarrow> ref" where
  "target (LoadBond df) = df"
| "target (LoadCashflow df) = df"
| "target (LoadCompany df) = df"

fun exec ::
  "(string \<Rightarrow> pyval option) \<Rightarrow> (pyval \<Rightarrow> date option) \<Rightarrow> (pyval \<Rightarrow> pyval option) \<Rightarrow>
   call \<Rightarrow> world \<Rightarrow> (error + unit) \<times> world" where
  "exec loads strptime number (LoadBond df) w = load_bond_data loads df w"
| "exec loads strptime number (LoadCashflow df) w = load_cashflow_data strptime number df w"
| "exec loads strptime number (LoadCompany df) w = load_company_data loads df w"

fun run ::
  "(string \<Rightarrow> pyval option) \<Rightarrow> (pyval \<Rightarrow> date option) \<Rightarrow> (pyval \<Rightarrow> pyval option) \<Rightarrow>
   call list \<Rightarrow> world \<Rightarrow> world" where
  "run loads strptime number [] w = w"
| "run loads strptime number (c # cs) w =
     run loads strptime number cs (snd (exec loads strptime number c w))"

fun loaded ::
  "(string \<Rightarrow> pyval option) \<Rightarrow> (pyval \<Rightarrow> date option) \<Rightarrow> (pyval \<Rightarrow> pyval option) \<Rightarrow>
   (call \<Rightarrow> bool) \<Rightarrow> call list \<Rightarrow> world \<Rightarrow> bool" where
  "loaded loads strptime number kind [] w = False"
| "loaded loads strptime number kind (c # cs) w =
     ((kind c \<and> fst (exec loads strptime number c w) = Inr ()) \<or>
      loaded loads strptime number kind cs (snd (exec loads strptime number c w)))"

section \<open>The specification's words\<close>

text \<open>A text that is empty or holds white space only.\<close>

definition blank :: "string \<Rightarrow> bool" where
  "blank s = list_all isspace s"

text \<open>
  What a structured-text cell becomes when its load succeeds: the parsed structure for a
  text that is not blank, the empty structure otherwise. (A cell whose text does not
  parse has no normal form: the load raises.)
\<close>

definition json_value :: "(string \<Rightarrow> pyval option) \<Rightarrow> pyval \<Rightarrow> pyval" where
  "json_value loads x =
     (case x of
        PStr s \<Rightarrow> (if blank s then PDict [] else (case loads s of Some v \<Rightarrow> v | None \<Rightarrow> x))
      | _ \<Rightarrow> PDict [])"

definition malformed :: "(string \<Rightarrow> pyval option) \<Rightarrow> pyval \<Rightarrow> bool" where
  "malformed loads x = (case x of PStr s \<Rightarrow> \<not> blank s \<and> loads s = None | _ \<Rightarrow> False)"

text \<open>A table with the cells of the given columns, where present, replaced cell by cell.\<close>

definition map_cells :: "(pyval \<Rightarrow> pyval) \<Rightarrow> string list \<Rightarrow> dataframe \<Rightarrow> dataframe" where
  "map_cells f cols df =
     df\<lparr>rows := map (\<lambda>r c. if c \<in> set cols \<and> c \<in> set (columns df) then f (r c) else r c)
                   (rows df)\<rparr>"

definition normalized_cashflows ::
  "(pyval \<Rightarrow> date option) \<Rightarrow> (pyval \<Rightarrow> pyval option) \<Rightarrow> dataframe \<Rightarrow> dataframe" where
  "normalized_cashflows strptime number df =
     map_cells (to_numeric number) numeric_columns
       (map_cells (to_datetime strptime) date_columns df)"




text \<open>
  A calendar date written the way the spec names it, \<^verbatim>\<open>DD-MM-YYYY\<close>: two digits for the
  day, two for the month and four for the year, with hyphens between them.
\<close>

definition digit_char :: "nat \<Rightarrow> char" where
  "digit_char n = char_of (48 + n)"

definition two_digits :: "nat \<Rightarrow> string" where
  "two_digits n = [digit_char (n div 10 mod 10), digit_char (n mod 10)]"

definition four_digits :: "nat \<Rightarrow> string" where
  "four_digits n =
     [digit_char (n div 1000 mod 10), digit_char (n div 100 mod 10),
      digit_char (n div 10 mod 10), digit_char (n mod 10)]"

definition dmy_text :: "nat \<Rightarrow> nat \<Rightarrow> nat \<Rightarrow> string" where
  "dmy_text d m y = two_digits d @ ''-'' @ two_digits m @ ''-'' @ four_digits y"






section \<open>Worked examples: tables and library answers\<close>

text \<open>\<^verbatim>\<open>pd.DataFrame(records, columns=cols)\<close>: a table from its rows, cell by cell.\<close>

definition frame :: "string list \<Rightarrow> pyval list list \<Rightarrow> dataframe" where
  "frame cols records =
     \<lparr>columns = cols,
      rows = map (\<lambda>vs c. case map_of (zip cols vs) c of Some v \<Rightarrow> v | None \<Rightarrow> PNone) records\<rparr>"

text \<open>
  The library's answers on the texts of the examples below, and on no other text:
  \<^verbatim>\<open>json.loads\<close> parses \<^verbatim>\<open>{}\<close>, \<^verbatim>\<open>[1]\<close> and the JSON string \<^verbatim>\<open>"oops"\<close>, and raises on
  \<^verbatim>\<open>{\<close> and on \<^verbatim>\<open>oops\<close>; \<^verbatim>\<open>05-03-2023\<close> is 5 March 2023 and \<^verbatim>\<open>not-a-date\<close> is no date;
  \<^verbatim>\<open>123.45\<close> is a number and \<^verbatim>\<open>abc\<close> is none; the pattern \<^verbatim>\<open>tata\<close> has no special
  character and is searched as it is written.
\<close>

definition quoted_oops :: string where
  "quoted_oops = CHR 0x22 # ''oops'' @ [CHR 0x22]"

definition loads_sample :: "string \<Rightarrow> pyval option" where
  "loads_sample s =
     (if s = ''{}'' then Some (PDict [])
      else if s = ''[1]'' then Some (PList [PNum 1])
      else if s = quoted_oops then Some (PStr ''oops'')
      else None)"

definition strptime_sample :: "pyval \<Rightarrow> date option" where
  "strptime_sample x = (if x = PStr ''05-03-2023'' then Some (Date 2023 3 5) else None)"

definition number_sample :: "pyval \<Rightarrow> pyval option" where
  "number_sample x =
     (case x of
        PNum n \<Rightarrow> Some (PNum n)
      | PStr s \<Rightarrow> (if s = ''123.45'' then Some (PNum (12345 / 100)) else None)
      | _ \<Rightarrow> None)"


definition example_bonds :: dataframe where
  "example_bonds =
     frame (bond_required_columns @ [''company_industry'', ''listing_details''])
       [[PStr ''INE000A01011'', PStr ''Tata Steel'', PNum 500, PStr ''01-04-2020'',
         PStr ''01-04-2030'', PStr ''[1]'', PStr '' '', PNone, PStr ''Metals'', PStr []],
        [PStr ''INE111B02022'', PStr ''TATA Motors'', PNum 250, PStr ''15-06-2021'',
         PStr ''15-06-2026'', PStr ''{}'', PNum 7, PStr quoted_oops, PStr ''Autos'',
         PStr ''[1]'']]"

definition example_cashflows :: dataframe where
  "example_cashflows =
     frame [''isin'', ''cash_flow_date'', ''cash_flow_amount'', ''principal_amount'']
       [[PStr ''INE000A01011'', PStr ''05-03-2023'', PStr ''123.45'', PNum 1000],
        [PStr ''INE000A01011'', PStr ''not-a-date'', PStr ''abc'', PNone]]"

definition example_companies :: dataframe where
  "example_companies =
     frame [''company_name'', ''company_industry'', ''key_metrics'', ''income_statement'']
       [[PStr ''Tata Steel'', PStr ''Metals'', PStr ''[1]'', PStr quoted_oops],
        [PNone, PStr ''Unknown'', PStr ''{}'', PStr ''{}''],
        [PStr ''Infosys'', PStr ''Software'', PNone, PStr ''{}'']]"

text \<open>A loader that has loaded nothing, with the three example tables in the store.\<close>

definition example_world :: world where
  "example_world =
     \<lparr>heap = (\<lambda>a. if a = 0 then example_bonds else if a = 1 then example_cashflows
                 else example_companies),
      loader = init\<rparr>"

text \<open>The same store after the three tables have been loaded, each by its own call.\<close>

definition example_loaded :: world where
  "example_loaded =
     run loads_sample strptime_sample number_sample
       [LoadBond 0, LoadCashflow 1, LoadCompany 2] example_world"

text \<open>A cashflow table whose second date lies after the last day a timestamp holds.\<close>

definition late_cashflows :: dataframe where
  "late_cashflows =
     frame [''isin'', ''cash_flow_date'', ''cash_flow_amount'']
       [[PStr ''INE000A01011'', PStr ''11-04-2262'', PNum 1000],
        [PStr ''INE000A01011'', PStr ''01-01-3000'', PNum 1000]]"

definition late_world :: world where
  "late_world = \<lparr>heap = (\<lambda>a. late_cashflows), loader = init\<rparr>"

section \<open>Facts about the primitives\<close>

lemma join_nonempty: "xs \<noteq> [] \<Longrightarrow> [] \<notin> set xs \<Longrightarrow> join sep xs \<noteq> []"
  by (induction sep xs rule: join.induct) auto

lemma set_missing_cols: "set (missing_cols req df) = set req - set (columns df)"
  by (auto simp: missing_cols_def)

lemma missing_cols_Nil: "missing_cols req df = [] \<longleftrightarrow> set req \<subseteq> set (columns df)"
  by (auto simp: missing_cols_def filter_empty_conv)

lemma strip_Nil_iff: "strip s = [] \<longleftrightarrow> blank s"
proof -
  have "(\<forall>x \<in> set (dropWhile isspace s). isspace x) \<longleftrightarrow> dropWhile isspace s = []"
    using hd_dropWhile [of isspace s] by (cases "dropWhile isspace s") (auto dest: set_dropWhileD)
  then show ?thesis
    by (simp add: strip_def blank_def dropWhile_eq_Nil_conv list_all_iff)
qed

lemma json_cell_ok: "\<not> malformed loads x \<Longrightarrow> json_cell loads x = Inr (json_value loads x)"
  by (auto simp: json_cell_def json_value_def malformed_def strip_Nil_iff
      split: pyval.splits option.splits)

lemma json_cell_bad:
  "malformed loads x \<Longrightarrow> \<exists>s. x = PStr s \<and> json_cell loads x = Inl (JSONDecodeError s)"
  by (auto simp: json_cell_def malformed_def strip_Nil_iff split: pyval.splits)

lemma apply_series_json_Inr:
  "apply_series (json_cell loads) xs = Inr ys \<longleftrightarrow>
   (\<forall>x \<in> set xs. \<not> malformed loads x) \<and> ys = map (json_value loads) xs"
proof (induction xs arbitrary: ys)
  case Nil
  show ?case by auto
next
  case (Cons x xs)
  show ?case
  proof (cases "malformed loads x")
    case True
    then show ?thesis using json_cell_bad [OF True] by auto
  next
    case False
    show ?thesis
    proof (cases "apply_series (json_cell loads) xs")
      case (Inl e)
      then have "\<not> (\<forall>x \<in> set xs. \<not> malformed loads x)"
        using Cons.IH [of "map (json_value loads) xs"] by auto
      then show ?thesis using Inl False by (auto simp: json_cell_ok)
    next
      case (Inr zs)
      then have "(\<forall>x \<in> set xs. \<not> malformed loads x) \<and> zs = map (json_value loads) xs"
        using Cons.IH [of zs] by simp
      then show ?thesis using Inr False by (auto simp: json_cell_ok)
    qed
  qed
qed

lemma apply_series_json_Inl:
  "apply_series (json_cell loads) xs = Inl e \<Longrightarrow>
   \<exists>s. e = JSONDecodeError s \<and> PStr s \<in> set xs \<and> malformed loads (PStr s)"
proof (induction xs)
  case Nil
  then show ?case by simp
next
  case (Cons x xs)
  show ?case
  proof (cases "malformed loads x")
    case True
    then show ?thesis using json_cell_bad [OF True] Cons.prems by auto
  next
    case False
    then show ?thesis
      using Cons by (auto simp: json_cell_ok split: sum.splits)
  qed
qed

lemma apply_series_total:
  "(\<exists>e. apply_series f xs = Inl e) \<or> (\<exists>ys. apply_series f xs = Inr ys)"
  by (cases "apply_series f xs") auto

lemma setitem_map:
  "setitem col (map f (getitem col df)) df =
   df\<lparr>rows := map (\<lambda>r. r(col := f (r col))) (rows df)\<rparr>"
proof -
  have "map (\<lambda>(r, v). r(col := v)) (zip xs (map (\<lambda>r. f (r col)) xs)) =
        map (\<lambda>r. r(col := f (r col))) xs" for xs :: "row list"
    by (induction xs) auto
  then show ?thesis
    by (simp add: setitem_def getitem_def comp_def)
qed

lemma columns_map_cells [simp]: "columns (map_cells f cols df) = columns df"
  by (simp add: map_cells_def)

lemma length_rows_map_cells [simp]: "length (rows (map_cells f cols df)) = length (rows df)"
  by (simp add: map_cells_def)

lemma map_cells_Nil [simp]: "map_cells f [] df = df"
  by (simp add: map_cells_def)

lemma map_cells_absent:
  "col \<notin> set (columns df) \<Longrightarrow> map_cells f (col # cols) df = map_cells f cols df"
proof -
  assume a: "col \<notin> set (columns df)"
  have "(\<lambda>c. if c \<in> set (col # cols) \<and> c \<in> set (columns df) then f (r c) else r c) =
        (\<lambda>c. if c \<in> set cols \<and> c \<in> set (columns df) then f (r c) else r c)" for r :: row
    using a by (auto simp: fun_eq_iff)
  then show ?thesis
    by (simp add: map_cells_def)
qed

lemma map_cells_step:
  assumes "col \<in> set (columns df)" "col \<notin> set cols"
  shows "map_cells f cols (df\<lparr>rows := map (\<lambda>r. r(col := f (r col))) (rows df)\<rparr>) =
         map_cells f (col # cols) df"
proof -
  have "(\<lambda>c. if c \<in> set cols \<and> c \<in> set (columns df) then f ((r(col := f (r col))) c)
             else (r(col := f (r col))) c) =
        (\<lambda>c. if c \<in> set (col # cols) \<and> c \<in> set (columns df) then f (r c) else r c)"
    for r :: row
    using assms by (auto simp: fun_eq_iff)
  then show ?thesis
    by (simp add: map_cells_def comp_def)
qed

lemma convert_columns_map_cells:
  "distinct cols \<Longrightarrow> convert_columns f cols df = map_cells f cols df"
proof (induction cols arbitrary: df)
  case Nil
  show ?case by simp
next
  case (Cons col cols)
  show ?case
  proof (cases "col \<in> set (columns df)")
    case True
    have "convert_columns f (col # cols) df =
          map_cells f cols (df\<lparr>rows := map (\<lambda>r. r(col := f (r col))) (rows df)\<rparr>)"
      using True Cons by (simp add: setitem_map)
    then show ?thesis using True Cons.prems by (simp add: map_cells_step)
  next
    case False
    then show ?thesis using Cons by (simp add: map_cells_absent)
  qed
qed

lemma getitem_map_cells_other:
  "col \<notin> set cols \<Longrightarrow> getitem col (map_cells f cols df) = getitem col df"
  by (simp add: getitem_def map_cells_def)

lemma parse_json_columns_spec:
  assumes "distinct cols"
  shows "(\<exists>pre col post e. cols = pre @ col # post \<and> col \<in> set (columns df) \<and>
            apply_series (json_cell loads) (getitem col df) = Inl e \<and>
            (\<forall>c \<in> set pre. c \<in> set (columns df) \<longrightarrow>
               (\<forall>x \<in> set (getitem c df). \<not> malformed loads x)) \<and>
            parse_json_columns loads cols df =
              (Inl e, map_cells (json_value loads) pre df)) \<or>
         ((\<forall>c \<in> set cols. c \<in> set (columns df) \<longrightarrow>
               (\<forall>x \<in> set (getitem c df). \<not> malformed loads x)) \<and>
          parse_json_columns loads cols df = (Inr (), map_cells (json_value loads) cols df))"
  using assms
proof (induction cols arbitrary: df)
  case Nil
  show ?case by simp
next
  case (Cons col cols)
  show ?case
  proof (cases "col \<in> set (columns df)")
    case False
    from Cons.IH [of df] Cons.prems
    consider
      (bad) pre c post e where "cols = pre @ c # post" "c \<in> set (columns df)"
        "apply_series (json_cell loads) (getitem c df) = Inl e"
        "\<forall>c \<in> set pre. c \<in> set (columns df) \<longrightarrow> (\<forall>x \<in> set (getitem c df). \<not> malformed loads x)"
        "parse_json_columns loads cols df = (Inl e, map_cells (json_value loads) pre df)"
    | (good) "\<forall>c \<in> set cols. c \<in> set (columns df) \<longrightarrow> (\<forall>x \<in> set (getitem c df). \<not> malformed loads x)"
        "parse_json_columns loads cols df = (Inr (), map_cells (json_value loads) cols df)"
      by auto
    then show ?thesis
    proof cases
      case bad
      have "col # cols = (col # pre) @ c # post" using bad by simp
      moreover have "parse_json_columns loads (col # cols) df =
          (Inl e, map_cells (json_value loads) (col # pre) df)"
        using False bad by (simp add: map_cells_absent)
      moreover have "\<forall>c \<in> set (col # pre). c \<in> set (columns df) \<longrightarrow>
            (\<forall>x \<in> set (getitem c df). \<not> malformed loads x)"
        using bad(4) False by simp
      ultimately show ?thesis using bad(2,3) by blast
    next
      case good
      then show ?thesis using False by (simp add: map_cells_absent)
    qed
  next
    case True
    show ?thesis
    proof (cases "apply_series (json_cell loads) (getitem col df)")
      case (Inl e)
      have "col # cols = [] @ col # cols" by simp
      moreover have "parse_json_columns loads (col # cols) df =
          (Inl e, map_cells (json_value loads) [] df)"
        using True Inl by simp
      moreover have "\<forall>c \<in> set []. c \<in> set (columns df) \<longrightarrow>
            (\<forall>x \<in> set (getitem c df). \<not> malformed loads x)"
        by simp
      ultimately show ?thesis using True Inl by blast
    next
      case (Inr vs)
      then have ok: "\<forall>x \<in> set (getitem col df). \<not> malformed loads x"
        and vs: "vs = map (json_value loads) (getitem col df)"
        by (simp_all add: apply_series_json_Inr)
      define df' where "df' = df\<lparr>rows := map (\<lambda>r. r(col := json_value loads (r col))) (rows df)\<rparr>"
      have step: "parse_json_columns loads (col # cols) df = parse_json_columns loads cols df'"
        using True Inr vs by (simp add: setitem_map df'_def)
      have cols': "columns df' = columns df" by (simp add: df'_def)
      have other: "getitem c df' = getitem c df" if "c \<noteq> col" for c
        using that by (simp add: getitem_def df'_def)
      have mc: "map_cells (json_value loads) cs df' = map_cells (json_value loads) (col # cs) df"
        if "col \<notin> set cs" for cs
        using map_cells_step [OF True that] by (simp add: df'_def)
      have notin: "col \<notin> set cols" and dist: "distinct cols" using Cons.prems by auto
      from Cons.IH [OF dist, of df']
      consider
        (bad) pre c post e where "cols = pre @ c # post" "c \<in> set (columns df')"
          "apply_series (json_cell loads) (getitem c df') = Inl e"
          "\<forall>c \<in> set pre. c \<in> set (columns df') \<longrightarrow> (\<forall>x \<in> set (getitem c df'). \<not> malformed loads x)"
          "parse_json_columns loads cols df' = (Inl e, map_cells (json_value loads) pre df')"
      | (good) "\<forall>c \<in> set cols. c \<in> set (columns df') \<longrightarrow> (\<forall>x \<in> set (getitem c df'). \<not> malformed loads x)"
          "parse_json_columns loads cols df' = (Inr (), map_cells (json_value loads) cols df')"
        by auto
      then show ?thesis
      proof cases
        case bad
        have c_ne: "c \<noteq> col" and pre_ne: "col \<notin> set pre" using bad(1) notin by auto
        have "col # cols = (col # pre) @ c # post" using bad by simp
        moreover have "c \<in> set (columns df)" using bad cols' by simp
        moreover have "apply_series (json_cell loads) (getitem c df) = Inl e"
          using bad other [OF c_ne] by simp
        moreover have "\<forall>c \<in> set (col # pre). c \<in> set (columns df) \<longrightarrow>
            (\<forall>x \<in> set (getitem c df). \<not> malformed loads x)"
          using bad(4) ok other pre_ne cols' by (metis set_ConsD)
        moreover have "parse_json_columns loads (col # cols) df =
            (Inl e, map_cells (json_value loads) (col # pre) df)"
          using step bad(5) mc [OF pre_ne] by simp
        ultimately show ?thesis by blast
      next
        case good
        have "\<forall>c \<in> set (col # cols). c \<in> set (columns df) \<longrightarrow>
            (\<forall>x \<in> set (getitem c df). \<not> malformed loads x)"
          using good(1) ok other notin cols' by (metis set_ConsD)
        moreover have "parse_json_columns loads (col # cols) df =
            (Inr (), map_cells (json_value loads) (col # cols) df)"
          using step good(2) mc [OF notin] by simp
        ultimately show ?thesis by blast
      qed
    qed
  qed
qed

lemma parse_json_columns_error:
  "parse_json_columns loads cols df = (Inl e, d) \<Longrightarrow> \<exists>s. e = JSONDecodeError s"
  by (induction loads cols df rule: parse_json_columns.induct)
     (auto split: if_splits sum.splits dest: apply_series_json_Inl)

lemma parse_json_columns_cases:
  assumes "distinct cols"
  shows "if (\<exists>c \<in> set cols. c \<in> set (columns df) \<and> (\<exists>r \<in> set (rows df). malformed loads (r c)))
         then (\<exists>s pre. parse_json_columns loads cols df =
                 (Inl (JSONDecodeError s), map_cells (json_value loads) pre df) \<and>
               malformed loads (PStr s))
         else parse_json_columns loads cols df =
                (Inr (), map_cells (json_value loads) cols df)"
proof -
  have mem: "(\<forall>x \<in> set (getitem c df). \<not> malformed loads x) \<longleftrightarrow>
             (\<forall>r \<in> set (rows df). \<not> malformed loads (r c))" for c
    by (auto simp: getitem_def)
  from parse_json_columns_spec [OF assms, of df loads]
  consider
    (bad) pre col post e where "cols = pre @ col # post" "col \<in> set (columns df)"
      "apply_series (json_cell loads) (getitem col df) = Inl e"
      "parse_json_columns loads cols df = (Inl e, map_cells (json_value loads) pre df)"
  | (good) "\<forall>c \<in> set cols. c \<in> set (columns df) \<longrightarrow>
       (\<forall>x \<in> set (getitem c df). \<not> malformed loads x)"
      "parse_json_columns loads cols df = (Inr (), map_cells (json_value loads) cols df)"
    by blast
  then show ?thesis
  proof cases
    case bad
    from apply_series_json_Inl [OF bad(3)] obtain s where
      s: "e = JSONDecodeError s" "PStr s \<in> set (getitem col df)" "malformed loads (PStr s)"
      by blast
    then obtain r where r: "r \<in> set (rows df)" "r col = PStr s"
      by (auto simp: getitem_def)
    have "malformed loads (r col)" using r(2) s(3) by simp
    then have "\<exists>r \<in> set (rows df). malformed loads (r col)" using r(1) by blast
    moreover have "col \<in> set cols" using bad(1) by simp
    ultimately have "\<exists>c \<in> set cols. c \<in> set (columns df) \<and> (\<exists>r \<in> set (rows df). malformed loads (r c))"
      using bad(2) by blast
    then show ?thesis using bad(4) s by auto
  next
    case good
    then have "\<not> (\<exists>c \<in> set cols. c \<in> set (columns df) \<and> (\<exists>r \<in> set (rows df). malformed loads (r c)))"
      by (auto simp: mem)
    then show ?thesis using good(2) by simp
  qed
qed

lemma distinct_json_columns [simp]:
  "distinct bond_json_columns" "distinct company_json_columns"
  "distinct date_columns" "distinct numeric_columns"
  by (simp_all add: bond_json_columns_def company_json_columns_def date_columns_def
      numeric_columns_def)

lemma blank_simps [simp]: "blank [] = True" "blank (c # cs) = (isspace c \<and> blank cs)"
  by (simp_all add: blank_def)

lemma load_cashflow_data_ok:
  assumes "missing_cols cashflow_required_columns (heap w df) = []"
  shows "load_cashflow_data strptime number df w =
     (Inr (), w\<lparr>heap := (heap w)(df := normalized_cashflows strptime number (heap w df)),
                loader := (loader w)\<lparr>cashflow_details := Some df\<rparr>\<rparr>)"
  using assms
  by (simp add: load_cashflow_data_def normalized_cashflows_def convert_columns_map_cells)

lemma normalized_cashflows_cell:
  assumes "i < length (rows df)"
  shows "(rows (normalized_cashflows strptime number df) ! i) c =
     (if c \<in> set date_columns \<and> c \<in> set (columns df) then to_datetime strptime ((rows df ! i) c)
      else if c \<in> set numeric_columns \<and> c \<in> set (columns df) then to_numeric number ((rows df ! i) c)
      else (rows df ! i) c)"
proof -
  have "c \<in> set date_columns \<Longrightarrow> c \<notin> set numeric_columns"
    by (auto simp: date_columns_def numeric_columns_def)
  then show ?thesis
    using assms by (auto simp: normalized_cashflows_def map_cells_def)
qed

lemma fst_parse_json_columns:
  "fst (parse_json_columns loads cols df) = Inr () \<or>
   (\<exists>s. fst (parse_json_columns loads cols df) = Inl (JSONDecodeError s))"
proof (cases "parse_json_columns loads cols df")
  case (Pair res d)
  then show ?thesis
    using parse_json_columns_error [of loads cols df _ d] by (cases res) auto
qed

lemma load_bond_data_loader:
  "loader (snd (load_bond_data loads df w)) =
     (if fst (load_bond_data loads df w) = Inr ()
      then (loader w)\<lparr>bond_details := Some df\<rparr> else loader w)"
  by (auto simp: load_bond_data_def Let_def split: prod.splits sum.splits)

lemma load_company_data_loader:
  "loader (snd (load_company_data loads df w)) =
     (if fst (load_company_data loads df w) = Inr ()
      then (loader w)\<lparr>company_insights := Some df\<rparr> else loader w)"
  by (auto simp: load_company_data_def Let_def split: prod.splits sum.splits)

lemma load_cashflow_data_loader:
  "loader (snd (load_cashflow_data strptime number df w)) =
     (if fst (load_cashflow_data strptime number df w) = Inr ()
      then (loader w)\<lparr>cashflow_details := Some df\<rparr> else loader w)"
  by (auto simp: load_cashflow_data_def Let_def)

lemma load_heap_other:
  "b \<noteq> df \<Longrightarrow> heap (snd (load_bond_data loads df w)) b = heap w b"
  "b \<noteq> df \<Longrightarrow> heap (snd (load_company_data loads df w)) b = heap w b"
  "b \<noteq> df \<Longrightarrow> heap (snd (load_cashflow_data strptime number df w)) b = heap w b"
  by (auto simp: load_bond_data_def load_company_data_def load_cashflow_data_def Let_def
      split: prod.splits sum.splits)

lemma exec_loader:
  "bond_details (loader (snd (exec loads strptime number c w))) =
     (if is_bond c \<and> fst (exec loads strptime number c w) = Inr ()
      then Some (target c) else bond_details (loader w))"
  "cashflow_details (loader (snd (exec loads strptime number c w))) =
     (if is_cashflow c \<and> fst (exec loads strptime number c w) = Inr ()
      then Some (target c) else cashflow_details (loader w))"
  "company_insights (loader (snd (exec loads strptime number c w))) =
     (if is_company c \<and> fst (exec loads strptime number c w) = Inr ()
      then Some (target c) else company_insights (loader w))"
  by (cases c; simp add: load_bond_data_loader load_company_data_loader
      load_cashflow_data_loader)+

lemma run_loader:
  "bond_details (loader (run loads strptime number cs w)) = None \<longleftrightarrow>
     bond_details (loader w) = None \<and> \<not> loaded loads strptime number is_bond cs w"
  "cashflow_details (loader (run loads strptime number cs w)) = None \<longleftrightarrow>
     cashflow_details (loader w) = None \<and> \<not> loaded loads strptime number is_cashflow cs w"
  "company_insights (loader (run loads strptime number cs w)) = None \<longleftrightarrow>
     company_insights (loader w) = None \<and> \<not> loaded loads strptime number is_company cs w"
  by (induction cs arbitrary: w; auto simp: exec_loader)+

lemma not_loaded_error_iff:
  "get_bond_details isin w = Inl (ValueError ''Bond data not loaded'') \<longleftrightarrow>
     bond_details (loader w) = None"
  "get_cashflow_details isin w = Inl (ValueError ''Cashflow data not loaded'') \<longleftrightarrow>
     cashflow_details (loader w) = None"
  "get_company_insights re_compile name w = Inl (ValueError ''Company data not loaded'') \<longleftrightarrow>
     company_insights (loader w) = None"
  by (auto simp: get_bond_details_def get_cashflow_details_def get_company_insights_def
      filter_isin_def str_contains_def split: option.splits sum.splits if_splits)

lemma load_bond_data_Inr:
  assumes "fst (load_bond_data loads df w) = Inr ()"
  shows "missing_cols bond_required_columns (heap w df) = []"
    and "snd (load_bond_data loads df w) =
      w\<lparr>heap := (heap w)(df := map_cells (json_value loads) bond_json_columns (heap w df)),
        loader := (loader w)\<lparr>bond_details := Some df\<rparr>\<rparr>"
proof -
  show m: "missing_cols bond_required_columns (heap w df) = []"
    using assms by (auto simp: load_bond_data_def Let_def missing_error_def split: if_splits)
  have "parse_json_columns loads bond_json_columns (heap w df) =
      (Inr (), map_cells (json_value loads) bond_json_columns (heap w df))"
    using assms m parse_json_columns_cases [of bond_json_columns "heap w df" loads]
    by (auto simp: load_bond_data_def split: if_splits)
  then show "snd (load_bond_data loads df w) =
      w\<lparr>heap := (heap w)(df := map_cells (json_value loads) bond_json_columns (heap w df)),
        loader := (loader w)\<lparr>bond_details := Some df\<rparr>\<rparr>"
    using m by (simp add: load_bond_data_def)
qed

lemma load_company_data_Inr:
  assumes "fst (load_company_data loads df w) = Inr ()"
  shows "missing_cols company_required_columns (heap w df) = []"
    and "snd (load_company_data loads df w) =
      w\<lparr>heap := (heap w)(df := map_cells (json_value loads) company_json_columns (heap w df)),
        loader := (loader w)\<lparr>company_insights := Some df\<rparr>\<rparr>"
proof -
  show m: "missing_cols company_required_columns (heap w df) = []"
    using assms by (auto simp: load_company_data_def Let_def missing_error_def split: if_splits)
  have "parse_json_columns loads company_json_columns (heap w df) =
      (Inr (), map_cells (json_value loads) company_json_columns (heap w df))"
    using assms m parse_json_columns_cases [of company_json_columns "heap w df" loads]
    by (auto simp: load_company_data_def split: if_splits)
  then show "snd (load_company_data loads df w) =
      w\<lparr>heap := (heap w)(df := map_cells (json_value loads) company_json_columns (heap w df)),
        loader := (loader w)\<lparr>company_insights := Some df\<rparr>\<rparr>"
    using m by (simp add: load_company_data_def)
qed

lemma load_cashflow_data_Inr:
  assumes "fst (load_cashflow_data strptime number df w) = Inr ()"
  shows "missing_cols cashflow_required_columns (heap w df) = []"
    and "snd (load_cashflow_data strptime number df w) =
      w\<lparr>heap := (heap w)(df := normalized_cashflows strptime number (heap w df)),
        loader := (loader w)\<lparr>cashflow_details := Some df\<rparr>\<rparr>"
proof -
  show m: "missing_cols cashflow_required_columns (heap w df) = []"
    using assms by (auto simp: load_cashflow_data_def Let_def missing_error_def split: if_splits)
  show "snd (load_cashflow_data strptime number df w) =
      w\<lparr>heap := (heap w)(df := normalized_cashflows strptime number (heap w df)),
        loader := (loader w)\<lparr>cashflow_details := Some df\<rparr>\<rparr>"
    by (simp add: load_cashflow_data_ok [OF m])
qed

lemma columns_normalized_cashflows [simp]:
  "columns (normalized_cashflows strptime number df) = columns df"
  by (simp add: normalized_cashflows_def)

lemma map_cells_cell:
  "i < length (rows df) \<Longrightarrow>
   (rows (map_cells f cols df) ! i) c =
     (if c \<in> set cols \<and> c \<in> set (columns df) then f ((rows df ! i) c) else (rows df ! i) c)"
  by (simp add: map_cells_def)


lemma load_bond_data_ok:
  assumes "missing_cols bond_required_columns (heap w df) = []"
    and "\<not> (\<exists>c \<in> set bond_json_columns. c \<in> set (columns (heap w df)) \<and>
        (\<exists>r \<in> set (rows (heap w df)). malformed loads (r c)))"
  shows "load_bond_data loads df w =
     (Inr (), w\<lparr>heap := (heap w)(df := map_cells (json_value loads) bond_json_columns (heap w df)),
        loader := (loader w)\<lparr>bond_details := Some df\<rparr>\<rparr>)"
  using assms parse_json_columns_cases [of bond_json_columns "heap w df" loads]
  by (simp add: load_bond_data_def)

lemma load_company_data_ok:
  assumes "missing_cols company_required_columns (heap w df) = []"
    and "\<not> (\<exists>c \<in> set company_json_columns. c \<in> set (columns (heap w df)) \<and>
        (\<exists>r \<in> set (rows (heap w df)). malformed loads (r c)))"
  shows "load_company_data loads df w =
     (Inr (), w\<lparr>heap := (heap w)(df := map_cells (json_value loads) company_json_columns (heap w df)),
        loader := (loader w)\<lparr>company_insights := Some df\<rparr>\<rparr>)"
  using assms parse_json_columns_cases [of company_json_columns "heap w df" loads]
  by (simp add: load_company_data_def)

lemma table_unchanged:
  "loader w' = loader w \<Longrightarrow> (\<And>b. b \<noteq> df \<Longrightarrow> heap w' b = heap w b) \<Longrightarrow>
   (bond_details (loader w) \<noteq> Some df \<longrightarrow> bond_table w' = bond_table w) \<and>
   (cashflow_details (loader w) \<noteq> Some df \<longrightarrow> cashflow_table w' = cashflow_table w) \<and>
   (company_insights (loader w) \<noteq> Some df \<longrightarrow> company_table w' = company_table w)"
  by (cases "bond_details (loader w)"; cases "cashflow_details (loader w)";
      cases "company_insights (loader w)")
     (simp_all add: bond_table_def cashflow_table_def company_table_def)

lemma load_failed:
  "fst (load_bond_data loads df w) = Inl e \<Longrightarrow>
     loader (snd (load_bond_data loads df w)) = loader w"
  "fst (load_company_data loads df w) = Inl e \<Longrightarrow>
     loader (snd (load_company_data loads df w)) = loader w"
  "fst (load_cashflow_data strptime number df w) = Inl e \<Longrightarrow>
     snd (load_cashflow_data strptime number df w) = w"
  "missing_cols bond_required_columns (heap w df) \<noteq> [] \<Longrightarrow>
     snd (load_bond_data loads df w) = w"
  "missing_cols company_required_columns (heap w df) \<noteq> [] \<Longrightarrow>
     snd (load_company_data loads df w) = w"
  by (simp_all add: load_bond_data_loader load_company_data_loader,
      auto simp: load_cashflow_data_def load_bond_data_def load_company_data_def Let_def
        split: if_splits)

lemma parse_json_columns_fail_at:
  assumes "distinct (pre @ col # post)" "col \<in> set (columns df)"
    "\<forall>c \<in> set pre. c \<in> set (columns df) \<longrightarrow>
       (\<forall>x \<in> set (getitem c df). \<not> malformed loads x)"
    "apply_series (json_cell loads) (getitem col df) = Inl e"
  shows "parse_json_columns loads (pre @ col # post) df =
     (Inl e, map_cells (json_value loads) pre df)"
  using assms
proof (induction pre arbitrary: df)
  case Nil
  then show ?case by simp
next
  case (Cons c pre)
  have d: "distinct (pre @ col # post)" and cp: "c \<notin> set pre" and cc: "c \<noteq> col"
    using Cons.prems(1) by auto
  show ?case
  proof (cases "c \<in> set (columns df)")
    case False
    have "parse_json_columns loads (pre @ col # post) df =
        (Inl e, map_cells (json_value loads) pre df)"
      using Cons.IH [OF d Cons.prems(2) _ Cons.prems(4)] Cons.prems(3) by simp
    then show ?thesis using False by (simp add: map_cells_absent)
  next
    case True
    define df' where "df' = df\<lparr>rows := map (\<lambda>r. r(c := json_value loads (r c))) (rows df)\<rparr>"
    have ok: "apply_series (json_cell loads) (getitem c df) =
        Inr (map (json_value loads) (getitem c df))"
      using Cons.prems(3) True by (simp add: apply_series_json_Inr)
    have step: "parse_json_columns loads ((c # pre) @ col # post) df =
        parse_json_columns loads (pre @ col # post) df'"
      using True ok by (simp add: setitem_map df'_def)
    have other: "getitem x df' = getitem x df" if "x \<noteq> c" for x
      using that by (simp add: getitem_def df'_def)
    have 1: "col \<in> set (columns df')" using Cons.prems(2) by (simp add: df'_def)
    have cols': "columns df' = columns df" by (simp add: df'_def)
    have 2: "\<forall>x \<in> set pre. x \<in> set (columns df') \<longrightarrow>
        (\<forall>y \<in> set (getitem x df'). \<not> malformed loads y)"
    proof (intro ballI impI)
      fix x y
      assume x: "x \<in> set pre" "x \<in> set (columns df')" and y: "y \<in> set (getitem x df')"
      have "x \<noteq> c" using x(1) cp by auto
      then have "y \<in> set (getitem x df)" using y other by simp
      moreover have "x \<in> set (c # pre)" "x \<in> set (columns df)" using x cols' by simp_all
      ultimately show "\<not> malformed loads y" using Cons.prems(3) by blast
    qed
    have 3: "apply_series (json_cell loads) (getitem col df') = Inl e"
      using Cons.prems(4) other [of col] cc by simp
    have "parse_json_columns loads (pre @ col # post) df' =
        (Inl e, map_cells (json_value loads) pre df')"
      using Cons.IH [OF d 1 2 3] .
    moreover have "map_cells (json_value loads) pre df' =
        map_cells (json_value loads) (c # pre) df"
      using map_cells_step [OF True cp] by (simp add: df'_def)
    ultimately show ?thesis using step by simp
  qed
qed

lemma missing_cols_map_cells [simp]:
  "missing_cols req (map_cells f cols df) = missing_cols req df"
  by (simp add: missing_cols_def)

lemma exec_heap_other:
  "b \<noteq> target c \<Longrightarrow> heap (snd (exec loads strptime number c w)) b = heap w b"
  by (cases c) (simp_all add: load_heap_other)

lemma exec_table_unchanged:
  "(\<not> is_bond c \<longrightarrow> bond_details (loader w) \<noteq> Some (target c) \<longrightarrow>
      bond_table (snd (exec loads strptime number c w)) = bond_table w) \<and>
   (\<not> is_cashflow c \<longrightarrow> cashflow_details (loader w) \<noteq> Some (target c) \<longrightarrow>
      cashflow_table (snd (exec loads strptime number c w)) = cashflow_table w) \<and>
   (\<not> is_company c \<longrightarrow> company_insights (loader w) \<noteq> Some (target c) \<longrightarrow>
      company_table (snd (exec loads strptime number c w)) = company_table w)"
  by (cases "bond_details (loader w)"; cases "cashflow_details (loader w)";
      cases "company_insights (loader w)")
     (simp_all add: bond_table_def cashflow_table_def company_table_def exec_loader
       exec_heap_other)

lemma map_cells_none:
  assumes "set cols \<inter> set (columns df) = {}"
  shows "map_cells f cols df = df"
proof -
  have "(\<lambda>c. if c \<in> set cols \<and> c \<in> set (columns df) then f (r c) else r c) = r" for r :: row
    using assms by (auto simp: fun_eq_iff)
  then show ?thesis by (simp add: map_cells_def)
qed

lemma parse_json_columns_failed:
  assumes "distinct cols" "parse_json_columns loads cols df = (Inl e, d)"
  shows "\<exists>pre col post s. cols = pre @ col # post \<and> col \<in> set (columns df) \<and>
     e = JSONDecodeError s \<and> PStr s \<in> set (getitem col df) \<and> malformed loads (PStr s) \<and>
     d = map_cells (json_value loads) pre df"
proof -
  from parse_json_columns_spec [OF assms(1), of df loads] assms(2)
  obtain pre col post where p: "cols = pre @ col # post" "col \<in> set (columns df)"
    "apply_series (json_cell loads) (getitem col df) = Inl e"
    "d = map_cells (json_value loads) pre df"
    by auto
  from apply_series_json_Inl [OF p(3)] obtain s where
    "e = JSONDecodeError s" "PStr s \<in> set (getitem col df)" "malformed loads (PStr s)"
    by blast
  then show ?thesis using p by blast
qed

lemma load_json_failed:
  "fst (load_bond_data loads df w) = Inl (JSONDecodeError s) \<Longrightarrow>
     \<exists>pre col post. bond_json_columns = pre @ col # post \<and> col \<in> set (columns (heap w df)) \<and>
       PStr s \<in> set (getitem col (heap w df)) \<and> malformed loads (PStr s) \<and>
       snd (load_bond_data loads df w) =
         w\<lparr>heap := (heap w)(df := map_cells (json_value loads) pre (heap w df))\<rparr>"
  "fst (load_company_data loads df w) = Inl (JSONDecodeError s) \<Longrightarrow>
     \<exists>pre col post. company_json_columns = pre @ col # post \<and>
       col \<in> set (columns (heap w df)) \<and>
       PStr s \<in> set (getitem col (heap w df)) \<and> malformed loads (PStr s) \<and>
       snd (load_company_data loads df w) =
         w\<lparr>heap := (heap w)(df := map_cells (json_value loads) pre (heap w df))\<rparr>"
proof -
  assume a: "fst (load_bond_data loads df w) = Inl (JSONDecodeError s)"
  then have m: "missing_cols bond_required_columns (heap w df) = []"
    by (auto simp: load_bond_data_def Let_def missing_error_def split: if_splits)
  obtain res d where r: "parse_json_columns loads bond_json_columns (heap w df) = (res, d)"
    by (cases "parse_json_columns loads bond_json_columns (heap w df)")
  then have res: "res = Inl (JSONDecodeError s)"
    using a m by (auto simp: load_bond_data_def split: sum.splits)
  from parse_json_columns_failed [OF _ r [unfolded res]]
  obtain pre col post s' where p: "bond_json_columns = pre @ col # post"
    "col \<in> set (columns (heap w df))" "JSONDecodeError s = JSONDecodeError s'"
    "PStr s' \<in> set (getitem col (heap w df))" "malformed loads (PStr s')"
    "d = map_cells (json_value loads) pre (heap w df)"
    by auto
  have "snd (load_bond_data loads df w) =
      w\<lparr>heap := (heap w)(df := map_cells (json_value loads) pre (heap w df))\<rparr>"
    using m r res p(6) by (simp add: load_bond_data_def)
  then show "\<exists>pre col post. bond_json_columns = pre @ col # post \<and>
       col \<in> set (columns (heap w df)) \<and>
       PStr s \<in> set (getitem col (heap w df)) \<and> malformed loads (PStr s) \<and>
       snd (load_bond_data loads df w) =
         w\<lparr>heap := (heap w)(df := map_cells (json_value loads) pre (heap w df))\<rparr>"
    using p by auto
next
  assume a: "fst (load_company_data loads df w) = Inl (JSONDecodeError s)"
  then have m: "missing_cols company_required_columns (heap w df) = []"
    by (auto simp: load_company_data_def Let_def missing_error_def split: if_splits)
  obtain res d where r: "parse_json_columns loads company_json_columns (heap w df) = (res, d)"
    by (cases "parse_json_columns loads company_json_columns (heap w df)")
  then have res: "res = Inl (JSONDecodeError s)"
    using a m by (auto simp: load_company_data_def split: sum.splits)
  from parse_json_columns_failed [OF _ r [unfolded res]]
  obtain pre col post s' where p: "company_json_columns = pre @ col # post"
    "col \<in> set (columns (heap w df))" "JSONDecodeError s = JSONDecodeError s'"
    "PStr s' \<in> set (getitem col (heap w df))" "malformed loads (PStr s')"
    "d = map_cells (json_value loads) pre (heap w df)"
    by auto
  have "snd (load_company_data loads df w) =
      w\<lparr>heap := (heap w)(df := map_cells (json_value loads) pre (heap w df))\<rparr>"
    using m r res p(6) by (simp add: load_company_data_def)
  then show "\<exists>pre col post. company_json_columns = pre @ col # post \<and>
       col \<in> set (columns (heap w df)) \<and>
       PStr s \<in> set (getitem col (heap w df)) \<and> malformed loads (PStr s) \<and>
       snd (load_company_data loads df w) =
         w\<lparr>heap := (heap w)(df := map_cells (json_value loads) pre (heap w df))\<rparr>"
    using p by auto
qed

section \<open>The example tables\<close>

lemma heap_example [simp]:
  "heap example_world 0 = example_bonds"
  "heap example_world (Suc 0) = example_cashflows"
  "heap example_world 2 = example_companies"
  "loader example_world = init"
  by (simp_all add: example_world_def)

lemma columns_examples [simp]:
  "columns example_bonds =
     [''isin'', ''company_name'', ''issue_size'', ''allotment_date'', ''maturity_date'',
      ''issuer_details'', ''instrument_details'', ''coupon_details'', ''company_industry'',
      ''listing_details'']"
  "columns example_cashflows =
     [''isin'', ''cash_flow_date'', ''cash_flow_amount'', ''principal_amount'']"
  "columns example_companies =
     [''company_name'', ''company_industry'', ''key_metrics'', ''income_statement'']"
  by (simp_all add: example_bonds_def example_cashflows_def example_companies_def frame_def
      bond_required_columns_def)

lemma examples_parse:
  "\<not> (\<exists>c \<in> set bond_json_columns. c \<in> set (columns example_bonds) \<and>
        (\<exists>r \<in> set (rows example_bonds). malformed loads_sample (r c)))"
  "\<not> (\<exists>c \<in> set company_json_columns. c \<in> set (columns example_companies) \<and>
        (\<exists>r \<in> set (rows example_companies). malformed loads_sample (r c)))"
  "\<not> (\<exists>c \<in> set company_json_columns. c \<in> set (columns example_bonds) \<and>
        (\<exists>r \<in> set (rows example_bonds). malformed loads_sample (r c)))"
proof -
  show "\<not> (\<exists>c \<in> set bond_json_columns. c \<in> set (columns example_bonds) \<and>
        (\<exists>r \<in> set (rows example_bonds). malformed loads_sample (r c)))"
    by (simp add: bond_json_columns_def,
        simp add: example_bonds_def frame_def malformed_def bond_required_columns_def
          loads_sample_def quoted_oops_def isspace_def)
  show "\<not> (\<exists>c \<in> set company_json_columns. c \<in> set (columns example_companies) \<and>
        (\<exists>r \<in> set (rows example_companies). malformed loads_sample (r c)))"
    by (simp add: company_json_columns_def,
        simp add: example_companies_def frame_def malformed_def
          loads_sample_def quoted_oops_def isspace_def)
  show "\<not> (\<exists>c \<in> set company_json_columns. c \<in> set (columns example_bonds) \<and>
        (\<exists>r \<in> set (rows example_bonds). malformed loads_sample (r c)))"
    by (simp add: company_json_columns_def)
qed

lemma examples_required:
  "missing_cols bond_required_columns example_bonds = []"
  "missing_cols company_required_columns example_bonds = []"
  "missing_cols cashflow_required_columns example_cashflows = []"
  "missing_cols company_required_columns example_companies = []"
  by (simp_all add: missing_cols_def bond_required_columns_def company_required_columns_def
      cashflow_required_columns_def)

lemma example_bond_load:
  "load_bond_data loads_sample 0 example_world =
     (Inr (), example_world\<lparr>heap := (heap example_world)
         (0 := map_cells (json_value loads_sample) bond_json_columns example_bonds),
        loader := init\<lparr>bond_details := Some 0\<rparr>\<rparr>)"
  using load_bond_data_ok [of example_world 0 loads_sample, unfolded heap_example,
      OF examples_required(1) examples_parse(1)]
  by simp

lemma example_company_load:
  "load_company_data loads_sample 2 example_world =
     (Inr (), example_world\<lparr>heap := (heap example_world)
         (2 := map_cells (json_value loads_sample) company_json_columns example_companies),
        loader := init\<lparr>company_insights := Some 2\<rparr>\<rparr>)"
  using load_company_data_ok [of example_world 2 loads_sample, unfolded heap_example,
      OF examples_required(4) examples_parse(2)]
  by simp

lemma example_loaded_simps [simp]:
  "loader example_loaded =
     \<lparr>bond_details = Some 0, cashflow_details = Some 1, company_insights = Some 2\<rparr>"
  "heap example_loaded 0 = map_cells (json_value loads_sample) bond_json_columns example_bonds"
  "heap example_loaded (Suc 0) =
     normalized_cashflows strptime_sample number_sample example_cashflows"
  "heap example_loaded 2 =
     map_cells (json_value loads_sample) company_json_columns example_companies"
proof -
  define w1 where "w1 = snd (load_bond_data loads_sample 0 example_world)"
  define w2 where "w2 = snd (load_cashflow_data strptime_sample number_sample 1 w1)"
  have w1: "w1 = example_world\<lparr>heap := (heap example_world)
         (0 := map_cells (json_value loads_sample) bond_json_columns example_bonds),
        loader := init\<lparr>bond_details := Some 0\<rparr>\<rparr>"
    by (simp add: w1_def example_bond_load)
  have w2: "w2 = w1\<lparr>heap := (heap w1)
         (1 := normalized_cashflows strptime_sample number_sample example_cashflows),
        loader := (loader w1)\<lparr>cashflow_details := Some 1\<rparr>\<rparr>"
    unfolding w2_def using load_cashflow_data_ok [of w1 1 strptime_sample number_sample]
    by (simp add: w1 examples_required)
  have h: "heap w2 2 = example_companies"
    by (simp add: w2 w1)
  have w3: "load_company_data loads_sample 2 w2 =
     (Inr (), w2\<lparr>heap := (heap w2)
         (2 := map_cells (json_value loads_sample) company_json_columns example_companies),
        loader := (loader w2)\<lparr>company_insights := Some 2\<rparr>\<rparr>)"
    using load_company_data_ok [of w2 2 loads_sample, unfolded h,
        OF examples_required(4) examples_parse(2)]
    by simp
  have e: "example_loaded = snd (load_company_data loads_sample 2 w2)"
    by (simp add: example_loaded_def w1_def w2_def)
  show "loader example_loaded =
     \<lparr>bond_details = Some 0, cashflow_details = Some 1, company_insights = Some 2\<rparr>"
    unfolding e w3 by (simp add: w2 w1 init_def)
  show "heap example_loaded 0 =
      map_cells (json_value loads_sample) bond_json_columns example_bonds"
    unfolding e w3 by (simp add: w2 w1)
  show "heap example_loaded (Suc 0) =
     normalized_cashflows strptime_sample number_sample example_cashflows"
    unfolding e w3 by (simp add: w2 w1)
  show "heap example_loaded 2 =
     map_cells (json_value loads_sample) company_json_columns example_companies"
    unfolding e w3 by (simp add: w2 w1)
qed



lemma example_company_reparse:
  "parse_json_columns loads_sample company_json_columns (heap example_loaded 2) =
      (Inl (JSONDecodeError ''oops''),
       map_cells (json_value loads_sample) [''key_metrics''] (heap example_loaded 2))"
proof -
  have c: "company_json_columns =
      [''key_metrics''] @ ''income_statement'' # [''balance_sheet'', ''cashflow'', ''lenders_profile'']"
    by (simp add: company_json_columns_def)
  show ?thesis
    unfolding c
    by (rule parse_json_columns_fail_at)
       (simp_all add: getitem_def map_cells_def example_companies_def frame_def
         company_json_columns_def malformed_def json_value_def json_cell_def strip_def
         loads_sample_def quoted_oops_def isspace_def)
qed

lemma example_company_reload:
  "load_company_data loads_sample 2 example_loaded =
     (Inl (JSONDecodeError ''oops''),
      example_loaded\<lparr>heap := (heap example_loaded)
        (2 := map_cells (json_value loads_sample) [''key_metrics''] (heap example_loaded 2))\<rparr>)"
proof -
  have m: "missing_cols company_required_columns (heap example_loaded 2) = []"
    by (simp add: examples_required)
  have c: "company_json_columns =
      [''key_metrics''] @ ''income_statement'' # [''balance_sheet'', ''cashflow'', ''lenders_profile'']"
    by (simp add: company_json_columns_def)
  have p: "parse_json_columns loads_sample company_json_columns (heap example_loaded 2) =
      (Inl (JSONDecodeError ''oops''),
       map_cells (json_value loads_sample) [''key_metrics''] (heap example_loaded 2))"
    unfolding c
    by (rule parse_json_columns_fail_at)
       (simp_all add: getitem_def map_cells_def example_companies_def frame_def
         company_json_columns_def malformed_def json_value_def json_cell_def strip_def
         loads_sample_def quoted_oops_def isspace_def)
  show ?thesis using m p by (simp add: load_company_data_def)
qed

lemma example_bond_reload:
  "load_bond_data loads_sample 0 example_loaded =
     (Inl (JSONDecodeError ''oops''),
      example_loaded\<lparr>heap := (heap example_loaded)
        (0 := map_cells (json_value loads_sample) [''issuer_details'', ''instrument_details'']
                (heap example_loaded 0))\<rparr>)"
proof -
  have m: "missing_cols bond_required_columns (heap example_loaded 0) = []"
    by (simp add: examples_required)
  have c: "bond_json_columns =
      [''issuer_details'', ''instrument_details''] @ ''coupon_details'' #
      [''redemption_details'', ''credit_rating_details'', ''listing_details'']"
    by (simp add: bond_json_columns_def)
  have p: "parse_json_columns loads_sample bond_json_columns (heap example_loaded 0) =
      (Inl (JSONDecodeError ''oops''),
       map_cells (json_value loads_sample) [''issuer_details'', ''instrument_details'']
         (heap example_loaded 0))"
    unfolding c
    by (rule parse_json_columns_fail_at)
       (simp_all add: getitem_def map_cells_def example_bonds_def frame_def
         bond_json_columns_def bond_required_columns_def malformed_def json_value_def
         json_cell_def strip_def loads_sample_def quoted_oops_def isspace_def)
  show ?thesis using m p by (simp add: load_bond_data_def)
qed

lemma example_bonds_as_companies:
  "load_company_data loads_sample 0 example_loaded =
     (Inr (), example_loaded\<lparr>heap := (heap example_loaded)
         (0 := map_cells (json_value loads_sample) company_json_columns (heap example_loaded 0)),
        loader := (loader example_loaded)\<lparr>company_insights := Some 0\<rparr>\<rparr>)"
  by (rule load_company_data_ok)
     (simp_all add: examples_required, simp add: company_json_columns_def)

lemma example_bonds_no_company_json [simp]:
  "map_cells f company_json_columns example_bonds = example_bonds"
  by (rule map_cells_none) (simp add: company_json_columns_def)

lemma example_bonds_first_as_companies:
  "load_company_data loads_sample 0 example_world =
     (Inr (), example_world\<lparr>heap := (heap example_world)(0 := example_bonds),
        loader := init\<lparr>company_insights := Some 0\<rparr>\<rparr>)"
  using load_company_data_ok [of example_world 0 loads_sample, unfolded heap_example,
      OF examples_required(2) examples_parse(3)]
  by simp

lemma example_bonds_after_companies:
  "load_bond_data loads_sample 0 (snd (load_company_data loads_sample 0 example_world)) =
     (Inr (), example_world\<lparr>heap := (heap example_world)
         (0 := map_cells (json_value loads_sample) bond_json_columns example_bonds),
        loader := init\<lparr>company_insights := Some 0, bond_details := Some 0\<rparr>\<rparr>)"
proof -
  define w where "w = snd (load_company_data loads_sample 0 example_world)"
  have wv: "w = example_world\<lparr>heap := (heap example_world)(0 := example_bonds),
      loader := init\<lparr>company_insights := Some 0\<rparr>\<rparr>"
    by (simp add: w_def example_bonds_first_as_companies)
  have h: "heap w 0 = example_bonds"
    by (simp add: wv)
  have step: "load_bond_data loads_sample 0 w =
     (Inr (), w\<lparr>heap := (heap w)(0 := map_cells (json_value loads_sample) bond_json_columns
              example_bonds),
        loader := (loader w)\<lparr>bond_details := Some 0\<rparr>\<rparr>)"
    using load_bond_data_ok [of w 0 loads_sample, unfolded h,
        OF examples_required(1) examples_parse(1)] .
  show ?thesis
    unfolding w_def [symmetric] step by (simp add: wv)
qed

section \<open>Required columns\<close>

text \<open>
  C5. Each load first lists the required columns of its kind that the table lacks. When
  the list is not empty the call raises \<^verbatim>\<open>ValueError\<close> with the message
  \<^verbatim>\<open>Missing required columns: \<close> followed by exactly those labels, in the order of the
  requirement and separated by commas, and nothing is changed: neither the table nor the
  loader. When no required column is missing, no such error is raised: the bond and the
  company load can then only raise on a structured-text cell, and the cashflow load
  returns.
\<close>

theorem required_columns_checked:
  "(missing_cols bond_required_columns (heap w df) \<noteq> [] \<longrightarrow>
      load_bond_data loads df w =
        (Inl (ValueError (''Missing required columns: '' @
           join '', '' (missing_cols bond_required_columns (heap w df)))), w)) \<and>
   (missing_cols cashflow_required_columns (heap w df) \<noteq> [] \<longrightarrow>
      load_cashflow_data strptime number df w =
        (Inl (ValueError (''Missing required columns: '' @
           join '', '' (missing_cols cashflow_required_columns (heap w df)))), w)) \<and>
   (missing_cols company_required_columns (heap w df) \<noteq> [] \<longrightarrow>
      load_company_data loads df w =
        (Inl (ValueError (''Missing required columns: '' @
           join '', '' (missing_cols company_required_columns (heap w df)))), w)) \<and>
   (missing_cols bond_required_columns (heap w df) = [] \<longrightarrow>
      (\<forall>m. fst (load_bond_data loads df w) \<noteq> Inl (ValueError m))) \<and>
   (missing_cols cashflow_required_columns (heap w df) = [] \<longrightarrow>
      fst (load_cashflow_data strptime number df w) = Inr ()) \<and>
   (missing_cols company_required_columns (heap w df) = [] \<longrightarrow>
      (\<forall>m. fst (load_company_data loads df w) \<noteq> Inl (ValueError m))) \<and>
   (\<forall>req. set (missing_cols req (heap w df)) = set req - set (columns (heap w df)) \<and>
      (missing_cols req (heap w df) = [] \<longleftrightarrow> set req \<subseteq> set (columns (heap w df))))"
proof -
  have b: "missing_cols bond_required_columns (heap w df) = [] \<Longrightarrow>
      fst (load_bond_data loads df w) \<noteq> Inl (ValueError m)" for m
    by (auto simp: load_bond_data_def split: prod.splits sum.splits
        dest: parse_json_columns_error)
  have c: "missing_cols company_required_columns (heap w df) = [] \<Longrightarrow>
      fst (load_company_data loads df w) \<noteq> Inl (ValueError m)" for m
    by (auto simp: load_company_data_def split: prod.splits sum.splits
        dest: parse_json_columns_error)
  show ?thesis
    using b c
    by (simp add: load_bond_data_def load_cashflow_data_def load_company_data_def
        missing_error_def set_missing_cols missing_cols_Nil Let_def)
qed

theorem required_columns_checked_witness:
  "load_bond_data loads_sample 2 example_world =
     (Inl (ValueError ''Missing required columns: isin, issue_size, allotment_date, maturity_date, issuer_details, instrument_details, coupon_details''),
      example_world) \<and>
   load_cashflow_data strptime_sample number_sample 2 example_world =
     (Inl (ValueError ''Missing required columns: isin, cash_flow_date, cash_flow_amount''),
      example_world) \<and>
   fst (load_company_data loads_sample 2 example_world) \<noteq>
     Inl (ValueError ''Missing required columns: company_name, company_industry'') \<and>
   fst (load_cashflow_data strptime_sample number_sample 1 example_world) = Inr ()"
  using required_columns_checked [of example_world 2 loads_sample strptime_sample number_sample]
    required_columns_checked [of example_world 1 loads_sample strptime_sample number_sample]
  by (simp add: missing_cols_def bond_required_columns_def cashflow_required_columns_def
      company_required_columns_def)

section \<open>Structured-text cells\<close>

text \<open>
  C4. In a bond or company load that has found its required columns, every cell of a
  designated structured-text column that the table has goes through the same function:
  a text that is not blank is handed to the JSON parser and replaced by the structure the
  parser returns; an empty text, a text of white space only, and any value that is not a
  text are replaced by the empty dict. When some such cell holds a text that is not blank
  and that the parser rejects, the load raises that cell's \<^verbatim>\<open>JSONDecodeError\<close>: nothing
  catches it per cell. Otherwise the load returns and the table is the input with these
  cells replaced.
\<close>

theorem structured_text_cells:
  "(missing_cols bond_required_columns (heap w df) = [] \<longrightarrow>
      (if (\<exists>c \<in> set bond_json_columns. c \<in> set (columns (heap w df)) \<and>
             (\<exists>r \<in> set (rows (heap w df)). malformed loads (r c)))
       then (\<exists>s. fst (load_bond_data loads df w) = Inl (JSONDecodeError s) \<and>
                 malformed loads (PStr s))
       else fst (load_bond_data loads df w) = Inr () \<and>
            heap (snd (load_bond_data loads df w)) df =
              map_cells (json_value loads) bond_json_columns (heap w df))) \<and>
   (missing_cols company_required_columns (heap w df) = [] \<longrightarrow>
      (if (\<exists>c \<in> set company_json_columns. c \<in> set (columns (heap w df)) \<and>
             (\<exists>r \<in> set (rows (heap w df)). malformed loads (r c)))
       then (\<exists>s. fst (load_company_data loads df w) = Inl (JSONDecodeError s) \<and>
                 malformed loads (PStr s))
       else fst (load_company_data loads df w) = Inr () \<and>
            heap (snd (load_company_data loads df w)) df =
              map_cells (json_value loads) company_json_columns (heap w df))) \<and>
   (\<forall>s. json_cell loads (PStr s) =
      (if blank s then Inr (PDict [])
       else case loads s of Some v \<Rightarrow> Inr v | None \<Rightarrow> Inl (JSONDecodeError s))) \<and>
   (\<forall>x. (\<forall>s. x \<noteq> PStr s) \<longrightarrow> json_cell loads x = Inr (PDict []))"
proof -
  have b: "missing_cols bond_required_columns (heap w df) = [] \<Longrightarrow>
      (if (\<exists>c \<in> set bond_json_columns. c \<in> set (columns (heap w df)) \<and>
             (\<exists>r \<in> set (rows (heap w df)). malformed loads (r c)))
       then (\<exists>s. fst (load_bond_data loads df w) = Inl (JSONDecodeError s) \<and>
                 malformed loads (PStr s))
       else fst (load_bond_data loads df w) = Inr () \<and>
            heap (snd (load_bond_data loads df w)) df =
              map_cells (json_value loads) bond_json_columns (heap w df))"
    using parse_json_columns_cases [of bond_json_columns "heap w df" loads]
    by (auto simp: load_bond_data_def split: if_splits)
  have c: "missing_cols company_required_columns (heap w df) = [] \<Longrightarrow>
      (if (\<exists>c \<in> set company_json_columns. c \<in> set (columns (heap w df)) \<and>
             (\<exists>r \<in> set (rows (heap w df)). malformed loads (r c)))
       then (\<exists>s. fst (load_company_data loads df w) = Inl (JSONDecodeError s) \<and>
                 malformed loads (PStr s))
       else fst (load_company_data loads df w) = Inr () \<and>
            heap (snd (load_company_data loads df w)) df =
              map_cells (json_value loads) company_json_columns (heap w df))"
    using parse_json_columns_cases [of company_json_columns "heap w df" loads]
    by (auto simp: load_company_data_def split: if_splits)
  have d: "json_cell loads (PStr s) =
      (if blank s then Inr (PDict [])
       else case loads s of Some v \<Rightarrow> Inr v | None \<Rightarrow> Inl (JSONDecodeError s))" for s
    by (simp add: json_cell_def strip_Nil_iff)
  have e: "(\<forall>s. x \<noteq> PStr s) \<Longrightarrow> json_cell loads x = Inr (PDict [])" for x
    by (cases x) (simp_all add: json_cell_def)
  show ?thesis using b c d e by blast
qed

theorem structured_text_cells_witness:
  "fst (load_bond_data loads_sample 0 example_world) = Inr () \<and>
   map (\<lambda>r. map r bond_json_columns)
     (rows (heap (snd (load_bond_data loads_sample 0 example_world)) 0)) =
     [[PList [PNum 1], PDict [], PDict [], PNone, PNone, PDict []],
      [PDict [], PDict [], PStr ''oops'', PNone, PNone, PList [PNum 1]]] \<and>
   fst (load_company_data loads_sample 2 example_world) = Inr () \<and>
   map (\<lambda>r. map r company_json_columns)
     (rows (heap (snd (load_company_data loads_sample 2 example_world)) 2)) =
     [[PList [PNum 1], PStr ''oops'', PNone, PNone, PNone],
      [PDict [], PDict [], PNone, PNone, PNone],
      [PDict [], PDict [], PNone, PNone, PNone]] \<and>
   fst (load_company_data loads_sample 2
       (snd (load_company_data loads_sample 2 example_world))) = Inl (JSONDecodeError ''oops'')"
proof -
  have a: "fst (load_bond_data loads_sample 0 example_world) = Inr () \<and>
   map (\<lambda>r. map r bond_json_columns)
     (rows (heap (snd (load_bond_data loads_sample 0 example_world)) 0)) =
     [[PList [PNum 1], PDict [], PDict [], PNone, PNone, PDict []],
      [PDict [], PDict [], PStr ''oops'', PNone, PNone, PList [PNum 1]]] \<and>
   fst (load_company_data loads_sample 2 example_world) = Inr () \<and>
   map (\<lambda>r. map r company_json_columns)
     (rows (heap (snd (load_company_data loads_sample 2 example_world)) 2)) =
     [[PList [PNum 1], PStr ''oops'', PNone, PNone, PNone],
      [PDict [], PDict [], PNone, PNone, PNone],
      [PDict [], PDict [], PNone, PNone, PNone]]"
    using structured_text_cells [of example_world 0 loads_sample]
      structured_text_cells [of example_world 2 loads_sample]
    by (simp add: missing_cols_def bond_required_columns_def company_required_columns_def
        bond_json_columns_def company_json_columns_def example_bonds_def example_companies_def
        frame_def malformed_def loads_sample_def quoted_oops_def isspace_def map_cells_def
        json_value_def)
  have b: "fst (load_company_data loads_sample 2
       (snd (load_company_data loads_sample 2 example_world))) = Inl (JSONDecodeError ''oops'')"
    using structured_text_cells
      [of "snd (load_company_data loads_sample 2 example_world)" 2 loads_sample]
    by (simp add: load_company_data_def missing_cols_def company_required_columns_def
        company_json_columns_def example_companies_def
        frame_def loads_sample_def quoted_oops_def isspace_def json_cell_def strip_def
        getitem_def setitem_def)
  show ?thesis using a b by simp
qed

section \<open>Date and numeric cells of a cashflow load\<close>

lemma cashflow_date_cell:
  assumes "missing_cols cashflow_required_columns (heap w df) = []"
    and "i < length (rows (heap w df))"
    and "c \<in> set date_columns" and "c \<in> set (columns (heap w df))"
  shows "(rows (heap (snd (load_cashflow_data strptime number df w)) df) ! i) c =
    to_datetime strptime ((rows (heap w df) ! i) c)"
proof -
  have len: "length (rows (normalized_cashflows strptime number (heap w df))) =
      length (rows (heap w df))"
    by (simp add: normalized_cashflows_def)
  show ?thesis
    using assms by (simp add: load_cashflow_data_ok [OF assms(1)] len normalized_cashflows_cell)
qed


lemma cashflow_load_returns:
  "missing_cols cashflow_required_columns (heap w df) = [] \<Longrightarrow>
   fst (load_cashflow_data strptime number df w) = Inr ()"
  by (simp add: load_cashflow_data_ok)

subsection \<open>Texts that the date format reads\<close>

lemma of_char_digit_char: "n < 10 \<Longrightarrow> (of_char (digit_char n) :: nat) = 48 + n"
  by (simp add: digit_char_def)

lemma isdigit_digit_char: "n < 10 \<Longrightarrow> isdigit (digit_char n)"
  by (simp add: isdigit_def of_char_digit_char)

lemma digit_value_digit_char: "n < 10 \<Longrightarrow> digit_value (digit_char n) = n"
  by (simp add: digit_value_def of_char_digit_char)

lemma digit_char_0: "digit_char 0 = CHR ''0''"
  unfolding digit_char_def by code_simp

lemma digit_char_neq:
  assumes "n < 10"
  shows "digit_char n \<noteq> CHR ''-''" and "digit_char n \<noteq> CHR '' ''"
    and "(digit_char n = CHR ''0'') = (n = 0)"
proof -
  have e: "(of_char (digit_char n) :: nat) = 48 + n" using assms by (rule of_char_digit_char)
  show "digit_char n \<noteq> CHR ''-''"
  proof
    assume "digit_char n = CHR ''-''"
    then have "(of_char (digit_char n) :: nat) = of_char (CHR ''-'')" by simp
    with e show False by simp
  qed
  show "digit_char n \<noteq> CHR '' ''"
  proof
    assume "digit_char n = CHR '' ''"
    then have "(of_char (digit_char n) :: nat) = of_char (CHR '' '')" by simp
    with e show False by simp
  qed
  show "(digit_char n = CHR ''0'') = (n = 0)"
  proof
    assume "digit_char n = CHR ''0''"
    then have "(of_char (digit_char n) :: nat) = of_char (CHR ''0'')" by simp
    with e show "n = 0" by simp
  next
    assume "n = 0" then show "digit_char n = CHR ''0''" by (simp add: digit_char_0)
  qed
qed

lemma int_of_digits_two:
  "n < 10 \<Longrightarrow> k < 10 \<Longrightarrow> int_of_digits [digit_char n, digit_char k] = 10 * n + k"
  by (simp add: int_of_digits_def digit_value_digit_char)

lemma two_digits_value: 
  assumes "d \<le> (99::nat)" shows "10 * (d div 10 mod 10) + d mod 10 = d"
proof -
  have "d div 10 < 10" using assms by simp
  then have "d div 10 mod 10 = d div 10" by simp
  then show ?thesis by simp
qed

lemma four_digits_value:
  assumes "y \<le> (9999::nat)"
  shows "10 * (10 * (10 * (y div 1000 mod 10) + y div 100 mod 10) + y div 10 mod 10) +
      y mod 10 = y"
proof -
  have "y div 1000 < 10" using assms by simp
  then have a: "y div 1000 mod 10 = y div 1000" by simp
  have "y div 100 div 10 = y div 1000" by (simp add: div_mult2_eq)
  then have e1: "10 * (y div 1000) + y div 100 mod 10 = y div 100"
    using mult_div_mod_eq [of 10 "y div 100"] by simp
  have "y div 10 div 10 = y div 100" by (simp add: div_mult2_eq)
  then have e2: "10 * (y div 100) + y div 10 mod 10 = y div 10"
    using mult_div_mod_eq [of 10 "y div 10"] by simp
  have e3: "10 * (y div 10) + y mod 10 = y" by simp
  show ?thesis by (simp only: a e1 e2 e3)
qed
lemma day_directive_digits:
  assumes "a < 10" "b < 10" "1 \<le> 10 * a + b" "10 * a + b \<le> 31"
  shows "day_directive [digit_char a, digit_char b] = Some (10 * a + b)"
  using assms(3,4)
  by (simp add: day_directive_def digit_char_neq [OF assms(1)]
      isdigit_digit_char [OF assms(1)] isdigit_digit_char [OF assms(2)]
      int_of_digits_two [OF assms(1,2)])

lemma month_directive_digits:
  assumes "a < 10" "b < 10" "1 \<le> 10 * a + b" "10 * a + b \<le> 12"
  shows "month_directive [digit_char a, digit_char b] = Some (10 * a + b)"
  using assms(3,4)
  by (simp add: month_directive_def
      isdigit_digit_char [OF assms(1)] isdigit_digit_char [OF assms(2)]
      int_of_digits_two [OF assms(1,2)])

lemma year_directive_digits:
  assumes "a < 10" "b < 10" "c < 10" "e < 10"
  shows "year_directive [digit_char a, digit_char b, digit_char c, digit_char e] =
    Some (10 * (10 * (10 * a + b) + c) + e)"
  by (simp add: year_directive_def int_of_digits_def
      isdigit_digit_char [OF assms(1)] isdigit_digit_char [OF assms(2)]
      isdigit_digit_char [OF assms(3)] isdigit_digit_char [OF assms(4)]
      digit_value_digit_char [OF assms(1)] digit_value_digit_char [OF assms(2)]
      digit_value_digit_char [OF assms(3)] digit_value_digit_char [OF assms(4)])

lemma day_directive_two_digits:
  assumes "1 \<le> d" "d \<le> 31"
  shows "day_directive (two_digits d) = Some d"
proof -
  have v: "10 * (d div 10 mod 10) + d mod 10 = d"
    using assms by (simp add: two_digits_value)
  have "day_directive [digit_char (d div 10 mod 10), digit_char (d mod 10)] =
      Some (10 * (d div 10 mod 10) + d mod 10)"
  proof (rule day_directive_digits)
    show "d div 10 mod 10 < 10" by simp
    show "d mod 10 < 10" by simp
    show "1 \<le> 10 * (d div 10 mod 10) + d mod 10" unfolding v by (rule assms)
    show "10 * (d div 10 mod 10) + d mod 10 \<le> 31" unfolding v by (rule assms)
  qed
  then show ?thesis by (simp only: v two_digits_def)
qed

lemma month_directive_two_digits:
  assumes "1 \<le> m" "m \<le> 12"
  shows "month_directive (two_digits m) = Some m"
proof -
  have v: "10 * (m div 10 mod 10) + m mod 10 = m"
    using assms by (simp add: two_digits_value)
  have "month_directive [digit_char (m div 10 mod 10), digit_char (m mod 10)] =
      Some (10 * (m div 10 mod 10) + m mod 10)"
  proof (rule month_directive_digits)
    show "m div 10 mod 10 < 10" by simp
    show "m mod 10 < 10" by simp
    show "1 \<le> 10 * (m div 10 mod 10) + m mod 10" unfolding v by (rule assms)
    show "10 * (m div 10 mod 10) + m mod 10 \<le> 12" unfolding v by (rule assms)
  qed
  then show ?thesis by (simp only: v two_digits_def)
qed

lemma year_directive_four_digits:
  assumes "y \<le> 9999"
  shows "year_directive (four_digits y) = Some y"
proof -
  have v: "10 * (10 * (10 * (y div 1000 mod 10) + y div 100 mod 10) + y div 10 mod 10) +
      y mod 10 = y"
    using assms by (rule four_digits_value)
  have "year_directive [digit_char (y div 1000 mod 10), digit_char (y div 100 mod 10),
      digit_char (y div 10 mod 10), digit_char (y mod 10)] =
    Some (10 * (10 * (10 * (y div 1000 mod 10) + y div 100 mod 10) + y div 10 mod 10) +
      y mod 10)"
    by (rule year_directive_digits) simp_all
  then show ?thesis by (simp only: v four_digits_def)
qed

lemma split_hyphen_two_digits:
  "split_hyphen (two_digits n @ CHR ''-'' # rest) = Some (two_digits n, rest)"
proof -
  have a: "n div 10 mod 10 < 10" "n mod 10 < 10" by simp_all
  show ?thesis
    by (simp add: split_hyphen_def two_digits_def digit_char_neq(1) [OF a(1)]
        digit_char_neq(1) [OF a(2)])
qed

lemma strptime_dmy_text:
  assumes "valid_date y m d"
  shows "strptime_dmy (dmy_text d m y) = Some (Date (int y) m d)"
proof -
  have dm: "days_in_month y m \<le> 31" by (simp add: days_in_month_def)
  have b: "1 \<le> d" "d \<le> 31" "1 \<le> m" "m \<le> 12" "y \<le> 9999"
    using assms dm by (simp_all add: valid_date_def)
  show ?thesis
    using assms
    by (simp add: strptime_dmy_def dmy_text_def split_hyphen_two_digits
        day_directive_two_digits [OF b(1,2)] month_directive_two_digits [OF b(3,4)]
        year_directive_four_digits [OF b(5)])
qed

lemma pandas_strptime_dmy_text:
  assumes "valid_date y m d" and "timestamp_range (Date (int y) m d)"
  shows "to_datetime pandas_strptime (PStr (dmy_text d m y)) = PDate (Date (int y) m d)"
  using assms by (simp add: to_datetime_def pandas_strptime_def strptime_dmy_text)

lemma to_datetime_None:
  "pandas_strptime x = None \<Longrightarrow> to_datetime pandas_strptime x = PNone"
  by (simp add: to_datetime_def)

text \<open>
  C7, as pandas has it. A cashflow load that has found its required columns does not
  raise. In every designated date column that the table has, a cell holding the text
  \<^verbatim>\<open>DD-MM-YYYY\<close> of a calendar day that a timestamp holds (22 September 1677 to
  11 April 2262) holds that date afterwards, day first: \<^verbatim>\<open>05-03-2023\<close> becomes
  5 March 2023. A cell in which the library reads no date, such as \<^verbatim>\<open>not-a-date\<close>,
  holds null afterwards.
\<close>

theorem dmy_dates_converted:
  "missing_cols cashflow_required_columns (heap w df) = [] \<longrightarrow>
     fst (load_cashflow_data pandas_strptime pandas_number df w) = Inr () \<and>
     length (rows (heap (snd (load_cashflow_data pandas_strptime pandas_number df w)) df)) =
       length (rows (heap w df)) \<and>
     (\<forall>i c. i < length (rows (heap w df)) \<longrightarrow> c \<in> set date_columns \<longrightarrow>
        c \<in> set (columns (heap w df)) \<longrightarrow>
        (\<forall>d m y. valid_date y m d \<longrightarrow> timestamp_range (Date (int y) m d) \<longrightarrow>
           (rows (heap w df) ! i) c = PStr (dmy_text d m y) \<longrightarrow>
           (rows (heap (snd (load_cashflow_data pandas_strptime pandas_number df w)) df) ! i) c =
             PDate (Date (int y) m d)) \<and>
        (pandas_strptime ((rows (heap w df) ! i) c) = None \<longrightarrow>
           (rows (heap (snd (load_cashflow_data pandas_strptime pandas_number df w)) df) ! i) c =
             PNone))"
proof
  assume a: "missing_cols cashflow_required_columns (heap w df) = []"
  have len: "length (rows (heap (snd (load_cashflow_data pandas_strptime pandas_number df w)) df)) =
      length (rows (heap w df))"
    by (simp add: load_cashflow_data_ok [OF a] normalized_cashflows_def)
  have cells: "\<forall>i c. i < length (rows (heap w df)) \<longrightarrow> c \<in> set date_columns \<longrightarrow>
        c \<in> set (columns (heap w df)) \<longrightarrow>
        (\<forall>d m y. valid_date y m d \<longrightarrow> timestamp_range (Date (int y) m d) \<longrightarrow>
           (rows (heap w df) ! i) c = PStr (dmy_text d m y) \<longrightarrow>
           (rows (heap (snd (load_cashflow_data pandas_strptime pandas_number df w)) df) ! i) c =
             PDate (Date (int y) m d)) \<and>
        (pandas_strptime ((rows (heap w df) ! i) c) = None \<longrightarrow>
           (rows (heap (snd (load_cashflow_data pandas_strptime pandas_number df w)) df) ! i) c =
             PNone)"
  proof (intro allI impI conjI)
    fix i c d m y
    assume h: "i < length (rows (heap w df))" "c \<in> set date_columns"
      "c \<in> set (columns (heap w df))"
      and v: "valid_date y m d" "timestamp_range (Date (int y) m d)"
      and x: "(rows (heap w df) ! i) c = PStr (dmy_text d m y)"
    show "(rows (heap (snd (load_cashflow_data pandas_strptime pandas_number df w)) df) ! i) c =
        PDate (Date (int y) m d)"
      by (simp only: cashflow_date_cell [OF a h] x pandas_strptime_dmy_text [OF v])
  next
    fix i c
    assume h: "i < length (rows (heap w df))" "c \<in> set date_columns"
      "c \<in> set (columns (heap w df))"
      and x: "pandas_strptime ((rows (heap w df) ! i) c) = None"
    show "(rows (heap (snd (load_cashflow_data pandas_strptime pandas_number df w)) df) ! i) c =
        PNone"
      by (simp only: cashflow_date_cell [OF a h] to_datetime_None [OF x])
  qed
  show "fst (load_cashflow_data pandas_strptime pandas_number df w) = Inr () \<and>
     length (rows (heap (snd (load_cashflow_data pandas_strptime pandas_number df w)) df)) =
       length (rows (heap w df)) \<and>
     (\<forall>i c. i < length (rows (heap w df)) \<longrightarrow> c \<in> set date_columns \<longrightarrow>
        c \<in> set (columns (heap w df)) \<longrightarrow>
        (\<forall>d m y. valid_date y m d \<longrightarrow> timestamp_range (Date (int y) m d) \<longrightarrow>
           (rows (heap w df) ! i) c = PStr (dmy_text d m y) \<longrightarrow>
           (rows (heap (snd (load_cashflow_data pandas_strptime pandas_number df w)) df) ! i) c =
             PDate (Date (int y) m d)) \<and>
        (pandas_strptime ((rows (heap w df) ! i) c) = None \<longrightarrow>
           (rows (heap (snd (load_cashflow_data pandas_strptime pandas_number df w)) df) ! i) c =
             PNone))"
    using cashflow_load_returns [OF a] len cells by blast
qed

theorem dmy_dates_converted_witness:
  "dmy_text 5 3 2023 = ''05-03-2023'' \<and>
   fst (load_cashflow_data pandas_strptime pandas_number 1 example_world) = Inr () \<and>
   (rows (heap (snd (load_cashflow_data pandas_strptime pandas_number 1 example_world)) 1) ! 0)
     ''cash_flow_date'' = PDate (Date 2023 3 5) \<and>
   (rows (heap (snd (load_cashflow_data pandas_strptime pandas_number 1 example_world)) 1) ! 1)
     ''cash_flow_date'' = PNone"
proof -
  have m: "missing_cols cashflow_required_columns (heap example_world 1) = []"
    by (simp add: heap_example missing_cols_def cashflow_required_columns_def
        example_cashflows_def frame_def)
  have t: "dmy_text 5 3 2023 = ''05-03-2023''"
    by code_simp
  have r: "(rows (heap example_world 1) ! 0) ''cash_flow_date'' = PStr (dmy_text 5 3 2023)"
    "(rows (heap example_world 1) ! 1) ''cash_flow_date'' = PStr ''not-a-date''"
    "0 < length (rows (heap example_world 1))" "1 < length (rows (heap example_world 1))"
    "''cash_flow_date'' \<in> set date_columns"
    "''cash_flow_date'' \<in> set (columns (heap example_world 1))"
    by (simp_all add: t heap_example example_cashflows_def frame_def date_columns_def)
  have v: "valid_date 2023 3 5" "timestamp_range (Date (int 2023) 3 5)"
    by (simp_all add: valid_date_def days_in_month_def leap_def timestamp_range_def date_le_def)
  have n: "pandas_strptime ((rows (heap example_world 1) ! 1) ''cash_flow_date'') = None"
    unfolding r(2)
    by (simp add: pandas_strptime_def strptime_dmy_def split_hyphen_def day_directive_def)
  note c = dmy_dates_converted [of example_world 1, THEN mp, OF m]
  note cells = c [THEN conjunct2, THEN conjunct2, rule_format]
  have c0: "(rows (heap (snd (load_cashflow_data pandas_strptime pandas_number 1 example_world)) 1)
      ! 0) ''cash_flow_date'' = PDate (Date (int 2023) 3 5)"
    by (rule cells [OF r(3) r(5) r(6), THEN conjunct1, rule_format, OF v r(1)])
  have c1: "(rows (heap (snd (load_cashflow_data pandas_strptime pandas_number 1 example_world)) 1)
      ! 1) ''cash_flow_date'' = PNone"
    by (rule cells [OF r(4) r(5) r(6), THEN conjunct2, rule_format, OF n])
  show ?thesis
    using t c [THEN conjunct1] c0 c1 by simp
qed

text \<open>
  C7 as the spec words it has every text in day-month-year format become its date. The
  first day of the year 3000 is a calendar day and the format reads \<^verbatim>\<open>01-01-3000\<close> as
  that day, but no timestamp holds it: the cell becomes null. The last day that a
  timestamp holds, 11 April 2262, is converted.
\<close>

theorem late_date_becomes_null:
  "valid_date 3000 1 1 \<and> dmy_text 1 1 3000 = ''01-01-3000'' \<and>
   strptime_dmy ''01-01-3000'' = Some (Date 3000 1 1) \<and>
   (rows (heap late_world 0) ! 1) ''cash_flow_date'' = PStr ''01-01-3000'' \<and>
   fst (load_cashflow_data pandas_strptime pandas_number 0 late_world) = Inr () \<and>
   (rows (heap (snd (load_cashflow_data pandas_strptime pandas_number 0 late_world)) 0) ! 1)
     ''cash_flow_date'' = PNone \<and>
   (rows (heap (snd (load_cashflow_data pandas_strptime pandas_number 0 late_world)) 0) ! 0)
     ''cash_flow_date'' = PDate (Date 2262 4 11)"
proof -
  have m: "missing_cols cashflow_required_columns (heap late_world 0) = []"
    by (simp add: late_world_def missing_cols_def cashflow_required_columns_def
        late_cashflows_def frame_def)
  have t: "dmy_text 1 1 3000 = ''01-01-3000''"
    by code_simp
  have r: "(rows (heap late_world 0) ! 0) ''cash_flow_date'' = PStr ''11-04-2262''"
    "(rows (heap late_world 0) ! 1) ''cash_flow_date'' = PStr ''01-01-3000''"
    "0 < length (rows (heap late_world 0))" "1 < length (rows (heap late_world 0))"
    "''cash_flow_date'' \<in> set date_columns"
    "''cash_flow_date'' \<in> set (columns (heap late_world 0))"
    by (simp_all add: late_world_def late_cashflows_def frame_def date_columns_def)
  have s: "strptime_dmy ''01-01-3000'' = Some (Date 3000 1 1)"
    "strptime_dmy ''11-04-2262'' = Some (Date 2262 4 11)"
    "valid_date 3000 1 1"
    by (simp_all add: strptime_dmy_def split_hyphen_def day_directive_def
        month_directive_def year_directive_def isdigit_def int_of_digits_def digit_value_def
        valid_date_def days_in_month_def leap_def)
  have p: "to_datetime pandas_strptime (PStr ''01-01-3000'') = PNone"
    "to_datetime pandas_strptime (PStr ''11-04-2262'') = PDate (Date 2262 4 11)"
    by (simp_all add: to_datetime_def pandas_strptime_def s timestamp_range_def date_le_def)
  have c0: "(rows (heap (snd (load_cashflow_data pandas_strptime pandas_number 0 late_world)) 0)
      ! 0) ''cash_flow_date'' = PDate (Date 2262 4 11)"
    by (simp only: cashflow_date_cell [OF m r(3) r(5) r(6)] r(1) p)
  have c1: "(rows (heap (snd (load_cashflow_data pandas_strptime pandas_number 0 late_world)) 0)
      ! 1) ''cash_flow_date'' = PNone"
    by (simp only: cashflow_date_cell [OF m r(4) r(5) r(6)] r(2) p)
  show ?thesis
    using s(1,3) t r(2) cashflow_load_returns [OF m] c0 c1 by simp
qed

subsection \<open>Texts that are numerals\<close>


















section \<open>Retrieval before and after loading\<close>

text \<open>
  C6. Start from a fresh loader and let the caller make any sequence of load calls,
  catching what they raise. A retrieval then raises the \<^verbatim>\<open>ValueError\<close> that says its data
  is not loaded exactly when no load call of its kind has returned without raising: never
  loaded means the error, and once a load of the kind has succeeded the error is not
  raised again.
\<close>

theorem not_loaded_error:
  "loader w = init \<longrightarrow>
     ((get_bond_details isin (run loads strptime number cs w) =
         Inl (ValueError ''Bond data not loaded'')) =
      (\<not> loaded loads strptime number is_bond cs w)) \<and>
     ((get_cashflow_details isin (run loads strptime number cs w) =
         Inl (ValueError ''Cashflow data not loaded'')) =
      (\<not> loaded loads strptime number is_cashflow cs w)) \<and>
     ((get_company_insights re_compile name (run loads strptime number cs w) =
         Inl (ValueError ''Company data not loaded'')) =
      (\<not> loaded loads strptime number is_company cs w))"
  by (simp add: not_loaded_error_iff run_loader init_def)

theorem not_loaded_error_witness:
  "get_bond_details None
     (run loads_sample strptime_sample number_sample [LoadBond 2, LoadCompany 2] example_world) =
     Inl (ValueError ''Bond data not loaded'') \<and>
   get_bond_details None
     (run loads_sample strptime_sample number_sample [LoadBond 2, LoadBond 0] example_world) \<noteq>
     Inl (ValueError ''Bond data not loaded'')"
proof -
  have f: "load_bond_data loads_sample 2 example_world =
      (Inl (missing_error (missing_cols bond_required_columns example_companies)), example_world)"
    by (simp add: load_bond_data_def missing_cols_def bond_required_columns_def)
  show ?thesis
    using not_loaded_error [of example_world None loads_sample strptime_sample number_sample
        "[LoadBond 2, LoadCompany 2]"]
      not_loaded_error [of example_world None loads_sample strptime_sample number_sample
        "[LoadBond 2, LoadBond 0]"]
    by (simp add: f example_bond_load)
qed

section \<open>Retrieval by key\<close>

text \<open>
  C1, as the code has it. \<^verbatim>\<open>if isin:\<close> is false for the empty text, so an empty argument
  is no filter: the whole table comes back. For every argument that is not empty, and
  every stored bond or cashflow table (a table that was loaded has its \<^verbatim>\<open>isin\<close> column),
  the result is the stored table with exactly the rows whose \<^verbatim>\<open>isin\<close> cell equals the
  argument; when no row has it, the result has no rows and nothing is raised.
\<close>

theorem isin_filter:
  "(isin \<noteq> [] \<longrightarrow>
      (bond_details (loader w) = Some a \<longrightarrow> ''isin'' \<in> set (columns (heap w a)) \<longrightarrow>
         get_bond_details (Some isin) w =
           Inr ((heap w a)\<lparr>rows := filter (\<lambda>r. r ''isin'' = PStr isin) (rows (heap w a))\<rparr>)) \<and>
      (cashflow_details (loader w) = Some a \<longrightarrow> ''isin'' \<in> set (columns (heap w a)) \<longrightarrow>
         get_cashflow_details (Some isin) w =
           Inr ((heap w a)\<lparr>rows := filter (\<lambda>r. r ''isin'' = PStr isin) (rows (heap w a))\<rparr>))) \<and>
   get_bond_details (Some []) w = get_bond_details None w \<and>
   get_cashflow_details (Some []) w = get_cashflow_details None w \<and>
   (fst (load_bond_data loads a w) = Inr () \<longrightarrow>
      ''isin'' \<in> set (columns (heap (snd (load_bond_data loads a w)) a))) \<and>
   (fst (load_cashflow_data strptime number a w) = Inr () \<longrightarrow>
      ''isin'' \<in> set (columns (heap (snd (load_cashflow_data strptime number a w)) a)))"
proof -
  have b: "fst (load_bond_data loads a w) = Inr () \<Longrightarrow>
      ''isin'' \<in> set (columns (heap (snd (load_bond_data loads a w)) a))"
    using load_bond_data_Inr [of loads a w]
    by (auto simp: missing_cols_Nil bond_required_columns_def)
  have c: "fst (load_cashflow_data strptime number a w) = Inr () \<Longrightarrow>
      ''isin'' \<in> set (columns (heap (snd (load_cashflow_data strptime number a w)) a))"
    using load_cashflow_data_Inr [of strptime number a w]
    by (auto simp: missing_cols_Nil cashflow_required_columns_def)
  show ?thesis
    using b c
    by (simp add: get_bond_details_def get_cashflow_details_def filter_isin_def
        split: option.splits)
qed

theorem isin_filter_witness:
  "map_sum id (\<lambda>t. map (\<lambda>r. r ''company_name'') (rows t))
     (get_bond_details (Some ''INE111B02022'') example_loaded) = Inr [PStr ''TATA Motors''] \<and>
   map_sum id (\<lambda>t. map (\<lambda>r. r ''cash_flow_amount'') (rows t))
     (get_cashflow_details (Some ''INE000A01011'') example_loaded) =
     Inr [PNum (12345 / 100), PNone] \<and>
   map_sum id rows (get_bond_details (Some ''INE999Z09999'') example_loaded) = Inr []"
  using isin_filter [of "''INE111B02022''" example_loaded 0]
    isin_filter [of "''INE000A01011''" example_loaded 1]
    isin_filter [of "''INE999Z09999''" example_loaded 0]
  by (simp add: map_cells_def normalized_cashflows_def example_bonds_def
      example_cashflows_def frame_def bond_required_columns_def bond_json_columns_def
      date_columns_def numeric_columns_def to_numeric_def number_sample_def)

text \<open>
  The claim as stated fails at the empty text: the loaded bond table has two rows, none
  with an empty \<^verbatim>\<open>isin\<close>, and \<^verbatim>\<open>get_bond_details("")\<close> returns both.
\<close>

theorem isin_filter_empty_argument:
  "bond_details (loader example_loaded) = Some 0 \<and>
   ''isin'' \<in> set (columns (heap example_loaded 0)) \<and>
   get_bond_details (Some []) example_loaded = Inr (heap example_loaded 0) \<and>
   map (\<lambda>r. r ''isin'') (rows (heap example_loaded 0)) =
     [PStr ''INE000A01011'', PStr ''INE111B02022''] \<and>
   filter (\<lambda>r. r ''isin'' = PStr []) (rows (heap example_loaded 0)) = []"
  by (simp add: get_bond_details_def map_cells_def example_bonds_def frame_def
      bond_required_columns_def bond_json_columns_def)




section \<open>What a load leaves behind\<close>

text \<open>
  C3, as the code has it. The loader keeps a reference to the caller's table and the
  loops write into that table, so a load changes the object it is given. When a load
  raises, the exception reaches the caller, the attributes of the loader are what they
  were, and every table other than the one passed in is untouched: the stored table keeps
  its contents unless the table passed in is the stored table itself. A failure on a
  missing column changes nothing at all, and a cashflow load fails in no other way. When a
  load returns, its attribute refers to the table passed in, which now holds the
  normalized input.
\<close>

theorem failed_load_keeps_state:
  "(\<forall>e. fst (load_bond_data loads df w) = Inl e \<longrightarrow>
      loader (snd (load_bond_data loads df w)) = loader w \<and>
      (\<forall>b. b \<noteq> df \<longrightarrow> heap (snd (load_bond_data loads df w)) b = heap w b) \<and>
      (bond_details (loader w) \<noteq> Some df \<longrightarrow>
         bond_table (snd (load_bond_data loads df w)) = bond_table w) \<and>
      (missing_cols bond_required_columns (heap w df) \<noteq> [] \<longrightarrow>
         snd (load_bond_data loads df w) = w)) \<and>
   (\<forall>e. fst (load_company_data loads df w) = Inl e \<longrightarrow>
      loader (snd (load_company_data loads df w)) = loader w \<and>
      (\<forall>b. b \<noteq> df \<longrightarrow> heap (snd (load_company_data loads df w)) b = heap w b) \<and>
      (company_insights (loader w) \<noteq> Some df \<longrightarrow>
         company_table (snd (load_company_data loads df w)) = company_table w) \<and>
      (missing_cols company_required_columns (heap w df) \<noteq> [] \<longrightarrow>
         snd (load_company_data loads df w) = w)) \<and>
   (\<forall>e. fst (load_cashflow_data strptime number df w) = Inl e \<longrightarrow>
      snd (load_cashflow_data strptime number df w) = w) \<and>
   (fst (load_bond_data loads df w) = Inr () \<longrightarrow>
      bond_details (loader (snd (load_bond_data loads df w))) = Some df \<and>
      bond_table (snd (load_bond_data loads df w)) =
        Some (map_cells (json_value loads) bond_json_columns (heap w df))) \<and>
   (fst (load_company_data loads df w) = Inr () \<longrightarrow>
      company_insights (loader (snd (load_company_data loads df w))) = Some df \<and>
      company_table (snd (load_company_data loads df w)) =
        Some (map_cells (json_value loads) company_json_columns (heap w df))) \<and>
   (fst (load_cashflow_data strptime number df w) = Inr () \<longrightarrow>
      cashflow_details (loader (snd (load_cashflow_data strptime number df w))) = Some df \<and>
      cashflow_table (snd (load_cashflow_data strptime number df w)) =
        Some (normalized_cashflows strptime number (heap w df)))"
proof -
  have b: "loader (snd (load_bond_data loads df w)) = loader w \<and>
      (\<forall>b. b \<noteq> df \<longrightarrow> heap (snd (load_bond_data loads df w)) b = heap w b) \<and>
      (bond_details (loader w) \<noteq> Some df \<longrightarrow>
         bond_table (snd (load_bond_data loads df w)) = bond_table w) \<and>
      (missing_cols bond_required_columns (heap w df) \<noteq> [] \<longrightarrow>
         snd (load_bond_data loads df w) = w)"
    if "fst (load_bond_data loads df w) = Inl e" for e
    using load_failed(1) [OF that] load_failed(4) [of w df loads]
      table_unchanged [of "snd (load_bond_data loads df w)" w df]
    by (simp add: load_heap_other)
  have c: "loader (snd (load_company_data loads df w)) = loader w \<and>
      (\<forall>b. b \<noteq> df \<longrightarrow> heap (snd (load_company_data loads df w)) b = heap w b) \<and>
      (company_insights (loader w) \<noteq> Some df \<longrightarrow>
         company_table (snd (load_company_data loads df w)) = company_table w) \<and>
      (missing_cols company_required_columns (heap w df) \<noteq> [] \<longrightarrow>
         snd (load_company_data loads df w) = w)"
    if "fst (load_company_data loads df w) = Inl e" for e
    using load_failed(2) [OF that] load_failed(5) [of w df loads]
      table_unchanged [of "snd (load_company_data loads df w)" w df]
    by (simp add: load_heap_other)
  have f: "snd (load_cashflow_data strptime number df w) = w"
    if "fst (load_cashflow_data strptime number df w) = Inl e" for e
    using load_failed(3) [OF that] .
  have sb: "bond_details (loader (snd (load_bond_data loads df w))) = Some df \<and>
      bond_table (snd (load_bond_data loads df w)) =
        Some (map_cells (json_value loads) bond_json_columns (heap w df))"
    if "fst (load_bond_data loads df w) = Inr ()"
    by (simp add: load_bond_data_Inr(2) [OF that] bond_table_def)
  have sc: "company_insights (loader (snd (load_company_data loads df w))) = Some df \<and>
      company_table (snd (load_company_data loads df w)) =
        Some (map_cells (json_value loads) company_json_columns (heap w df))"
    if "fst (load_company_data loads df w) = Inr ()"
    by (simp add: load_company_data_Inr(2) [OF that] company_table_def)
  have sf: "cashflow_details (loader (snd (load_cashflow_data strptime number df w))) = Some df \<and>
      cashflow_table (snd (load_cashflow_data strptime number df w)) =
        Some (normalized_cashflows strptime number (heap w df))"
    if "fst (load_cashflow_data strptime number df w) = Inr ()"
    by (simp add: load_cashflow_data_Inr(2) [OF that] cashflow_table_def)
  show ?thesis using b c f sb sc sf by blast
qed

theorem failed_load_keeps_state_witness:
  "fst (load_company_data loads_sample 2
         (snd (load_company_data loads_sample 0 example_loaded))) =
     Inl (JSONDecodeError ''oops'') \<and>
   loader (snd (load_company_data loads_sample 2
         (snd (load_company_data loads_sample 0 example_loaded)))) =
     loader (snd (load_company_data loads_sample 0 example_loaded)) \<and>
   company_table (snd (load_company_data loads_sample 2
         (snd (load_company_data loads_sample 0 example_loaded)))) =
     company_table (snd (load_company_data loads_sample 0 example_loaded)) \<and>
   snd (load_bond_data loads_sample 2 example_loaded) = example_loaded \<and>
   bond_table (snd (load_bond_data loads_sample 0 example_world)) =
     Some (map_cells (json_value loads_sample) bond_json_columns example_bonds)"
proof -
  define w where "w = snd (load_company_data loads_sample 0 example_loaded)"
  have h: "heap w 2 = heap example_loaded 2" "company_insights (loader w) = Some 0"
    by (simp_all add: w_def example_bonds_as_companies)
  have f: "fst (load_company_data loads_sample 2 w) = Inl (JSONDecodeError ''oops'')"
    using example_company_reparse
    by (simp add: load_company_data_def h examples_required)
  have m: "missing_cols bond_required_columns (heap example_loaded 2) \<noteq> []"
    by (simp add: missing_cols_def bond_required_columns_def)
  have e: "fst (load_bond_data loads_sample 2 example_loaded) =
      Inl (missing_error (missing_cols bond_required_columns (heap example_loaded 2)))"
    using m by (simp add: load_bond_data_def)
  have o: "fst (load_bond_data loads_sample 0 example_world) = Inr ()"
    by (simp add: example_bond_load)
  show ?thesis
    using failed_load_keeps_state [of loads_sample 2 w strptime_sample number_sample]
      failed_load_keeps_state [of loads_sample 2 example_loaded strptime_sample number_sample]
      failed_load_keeps_state [of loads_sample 0 example_world strptime_sample number_sample]
      f h m e o
    unfolding w_def [symmetric] by simp
qed

text \<open>
  The claim as stated fails when the stored table is loaded again. The first load left the
  text \<^verbatim>\<open>oops\<close> (parsed from the JSON string \<^verbatim>\<open>"oops"\<close>) in \<^verbatim>\<open>income_statement\<close>; the
  second load resets \<^verbatim>\<open>key_metrics\<close> to empty dicts, then raises on that text. The call
  raised and the stored company table is no longer what it was.
\<close>

theorem failed_load_changes_stored_table:
  "company_insights (loader example_loaded) = Some 2 \<and>
   (rows (heap example_loaded 2) ! 0) ''key_metrics'' = PList [PNum 1] \<and>
   fst (load_company_data loads_sample 2 example_loaded) = Inl (JSONDecodeError ''oops'') \<and>
   company_insights (loader (snd (load_company_data loads_sample 2 example_loaded))) = Some 2 \<and>
   (rows (heap (snd (load_company_data loads_sample 2 example_loaded)) 2) ! 0) ''key_metrics'' =
     PDict [] \<and>
   company_table (snd (load_company_data loads_sample 2 example_loaded)) \<noteq>
     company_table example_loaded"
proof -
  have a: "(rows (heap example_loaded 2) ! 0) ''key_metrics'' = PList [PNum 1]"
    by (simp add: map_cells_def example_companies_def frame_def company_json_columns_def
        json_value_def loads_sample_def isspace_def)
  have b: "(rows (heap (snd (load_company_data loads_sample 2 example_loaded)) 2) ! 0)
      ''key_metrics'' = PDict []"
    by (simp add: example_company_reload map_cells_def example_companies_def frame_def
        company_json_columns_def json_value_def loads_sample_def isspace_def)
  have "heap (snd (load_company_data loads_sample 2 example_loaded)) 2 \<noteq> heap example_loaded 2"
    using a b by auto
  then have c: "company_table (snd (load_company_data loads_sample 2 example_loaded)) \<noteq>
     company_table example_loaded"
    by (simp add: company_table_def example_company_reload)
  show ?thesis using a b c by (simp add: example_company_reload)
qed

text \<open>
  C9, as the code has it. Of two successful loads of one kind the second replaces what the
  first stored: the attribute refers to the second table, which holds the second input
  normalized, and nothing of the first is merged in. A load of one kind never changes the
  attributes of the other two kinds, and it leaves their tables as they were unless the
  table it is given is itself stored under another kind: the stored tables are the
  caller's objects, and the load writes into the object it is given.
\<close>

theorem load_replaces_and_frames:
  "(fst (load_bond_data loads df1 w) = Inr () \<longrightarrow>
    fst (load_bond_data loads df2 (snd (load_bond_data loads df1 w))) = Inr () \<longrightarrow>
      bond_details (loader (snd (load_bond_data loads df2 (snd (load_bond_data loads df1 w))))) =
        Some df2 \<and>
      bond_table (snd (load_bond_data loads df2 (snd (load_bond_data loads df1 w)))) =
        Some (map_cells (json_value loads) bond_json_columns
               (heap (snd (load_bond_data loads df1 w)) df2))) \<and>
   (fst (load_cashflow_data strptime number df1 w) = Inr () \<longrightarrow>
    fst (load_cashflow_data strptime number df2
          (snd (load_cashflow_data strptime number df1 w))) = Inr () \<longrightarrow>
      cashflow_details (loader (snd (load_cashflow_data strptime number df2
          (snd (load_cashflow_data strptime number df1 w))))) = Some df2 \<and>
      cashflow_table (snd (load_cashflow_data strptime number df2
          (snd (load_cashflow_data strptime number df1 w)))) =
        Some (normalized_cashflows strptime number
               (heap (snd (load_cashflow_data strptime number df1 w)) df2))) \<and>
   (fst (load_company_data loads df1 w) = Inr () \<longrightarrow>
    fst (load_company_data loads df2 (snd (load_company_data loads df1 w))) = Inr () \<longrightarrow>
      company_insights (loader (snd (load_company_data loads df2
          (snd (load_company_data loads df1 w))))) = Some df2 \<and>
      company_table (snd (load_company_data loads df2 (snd (load_company_data loads df1 w)))) =
        Some (map_cells (json_value loads) company_json_columns
               (heap (snd (load_company_data loads df1 w)) df2))) \<and>
   (\<not> is_bond c \<longrightarrow>
      bond_details (loader (snd (exec loads strptime number c w))) = bond_details (loader w) \<and>
      (bond_details (loader w) \<noteq> Some (target c) \<longrightarrow>
         bond_table (snd (exec loads strptime number c w)) = bond_table w)) \<and>
   (\<not> is_cashflow c \<longrightarrow>
      cashflow_details (loader (snd (exec loads strptime number c w))) =
        cashflow_details (loader w) \<and>
      (cashflow_details (loader w) \<noteq> Some (target c) \<longrightarrow>
         cashflow_table (snd (exec loads strptime number c w)) = cashflow_table w)) \<and>
   (\<not> is_company c \<longrightarrow>
      company_insights (loader (snd (exec loads strptime number c w))) =
        company_insights (loader w) \<and>
      (company_insights (loader w) \<noteq> Some (target c) \<longrightarrow>
         company_table (snd (exec loads strptime number c w)) = company_table w))"
proof -
  have b: "bond_details (loader (snd (load_bond_data loads df2 v))) = Some df2 \<and>
      bond_table (snd (load_bond_data loads df2 v)) =
        Some (map_cells (json_value loads) bond_json_columns (heap v df2))"
    if "fst (load_bond_data loads df2 v) = Inr ()" for v
    by (simp add: load_bond_data_Inr(2) [OF that] bond_table_def)
  have f: "cashflow_details (loader (snd (load_cashflow_data strptime number df2 v))) = Some df2 \<and>
      cashflow_table (snd (load_cashflow_data strptime number df2 v)) =
        Some (normalized_cashflows strptime number (heap v df2))"
    if "fst (load_cashflow_data strptime number df2 v) = Inr ()" for v
    by (simp add: load_cashflow_data_Inr(2) [OF that] cashflow_table_def)
  have c: "company_insights (loader (snd (load_company_data loads df2 v))) = Some df2 \<and>
      company_table (snd (load_company_data loads df2 v)) =
        Some (map_cells (json_value loads) company_json_columns (heap v df2))"
    if "fst (load_company_data loads df2 v) = Inr ()" for v
    by (simp add: load_company_data_Inr(2) [OF that] company_table_def)
  show ?thesis
    using b [of "snd (load_bond_data loads df1 w)"]
      f [of "snd (load_cashflow_data strptime number df1 w)"]
      c [of "snd (load_company_data loads df1 w)"]
      exec_table_unchanged [of c w loads strptime number]
    by (simp add: exec_loader)
qed

theorem load_replaces_and_frames_witness:
  "company_table (snd (load_company_data loads_sample 0
       (snd (load_company_data loads_sample 2 example_world)))) =
     Some example_bonds \<and>
   bond_table (snd (exec loads_sample strptime_sample number_sample (LoadCashflow 1)
       example_loaded)) = bond_table example_loaded \<and>
   company_table (snd (exec loads_sample strptime_sample number_sample (LoadCashflow 1)
       example_loaded)) = company_table example_loaded"
proof -
  define w where "w = snd (load_company_data loads_sample 2 example_world)"
  have h: "heap w 0 = example_bonds"
    by (simp add: w_def example_company_load)
  have 1: "fst (load_company_data loads_sample 2 example_world) = Inr ()"
    by (simp add: example_company_load)
  have "load_company_data loads_sample 0 w =
     (Inr (), w\<lparr>heap := (heap w)(0 := map_cells (json_value loads_sample) company_json_columns
              example_bonds),
        loader := (loader w)\<lparr>company_insights := Some 0\<rparr>\<rparr>)"
    using load_company_data_ok [of w 0 loads_sample, unfolded h,
        OF examples_required(2) examples_parse(3)] .
  then have 2: "fst (load_company_data loads_sample 0 w) = Inr ()"
    by simp
  show ?thesis
    using load_replaces_and_frames [of loads_sample 2 example_world 0 strptime_sample
        number_sample "LoadCashflow 1"]
      load_replaces_and_frames [of loads_sample 2 example_loaded 0 strptime_sample
        number_sample "LoadCashflow 1"]
      1 2 h
    unfolding w_def [symmetric] by simp
qed

text \<open>
  The claim as stated fails when one table is loaded under two kinds. The table is first
  stored as company table; the bond load of the same table then parses its
  \<^verbatim>\<open>issuer_details\<close>, and the stored company table is no longer what it was.
\<close>

theorem load_changes_other_stored_table:
  "fst (load_company_data loads_sample 0 example_world) = Inr () \<and>
   company_insights (loader (snd (load_company_data loads_sample 0 example_world))) = Some 0 \<and>
   (rows (heap (snd (load_company_data loads_sample 0 example_world)) 0) ! 0)
     ''issuer_details'' = PStr ''[1]'' \<and>
   fst (load_bond_data loads_sample 0 (snd (load_company_data loads_sample 0 example_world))) =
     Inr () \<and>
   company_insights (loader (snd (load_bond_data loads_sample 0
     (snd (load_company_data loads_sample 0 example_world))))) = Some 0 \<and>
   (rows (heap (snd (load_bond_data loads_sample 0
     (snd (load_company_data loads_sample 0 example_world)))) 0) ! 0)
     ''issuer_details'' = PList [PNum 1] \<and>
   company_table (snd (load_bond_data loads_sample 0
     (snd (load_company_data loads_sample 0 example_world)))) \<noteq>
   company_table (snd (load_company_data loads_sample 0 example_world))"
proof -
  have a: "(rows example_bonds ! 0) ''issuer_details'' = PStr ''[1]''"
    by (simp add: example_bonds_def frame_def bond_required_columns_def)
  have b: "(rows (map_cells (json_value loads_sample) bond_json_columns example_bonds) ! 0)
      ''issuer_details'' = PList [PNum 1]"
    by (simp add: map_cells_def example_bonds_def frame_def bond_required_columns_def
        bond_json_columns_def json_value_def loads_sample_def isspace_def)
  have "map_cells (json_value loads_sample) bond_json_columns example_bonds \<noteq> example_bonds"
    using a b by auto
  then show ?thesis
    using a b
    unfolding example_bonds_after_companies
    by (simp add: example_bonds_first_as_companies company_table_def init_def)
qed

text \<open>
  C10, as the code has it. No load copies its input. A load that returns has replaced, in
  the caller's own table, the cells of the designated columns (structured text for bonds
  and companies, dates and numbers for cashflows), and the loader's attribute refers to
  that same table. A load that raises on a structured-text cell has already replaced the
  designated columns that come before the failing one, and they stay replaced in the
  caller's table; the failing column and the later ones are as they were, and so are the
  loader's attributes and every other table. The stored table is therefore unchanged
  unless it is the caller's table itself.
\<close>

theorem loads_in_place:
  "(fst (load_bond_data loads df w) = Inr () \<longrightarrow>
      snd (load_bond_data loads df w) =
        w\<lparr>heap := (heap w)(df := map_cells (json_value loads) bond_json_columns (heap w df)),
          loader := (loader w)\<lparr>bond_details := Some df\<rparr>\<rparr>) \<and>
   (fst (load_company_data loads df w) = Inr () \<longrightarrow>
      snd (load_company_data loads df w) =
        w\<lparr>heap := (heap w)(df := map_cells (json_value loads) company_json_columns (heap w df)),
          loader := (loader w)\<lparr>company_insights := Some df\<rparr>\<rparr>) \<and>
   (fst (load_cashflow_data strptime number df w) = Inr () \<longrightarrow>
      snd (load_cashflow_data strptime number df w) =
        w\<lparr>heap := (heap w)(df := normalized_cashflows strptime number (heap w df)),
          loader := (loader w)\<lparr>cashflow_details := Some df\<rparr>\<rparr>) \<and>
   (\<forall>s. fst (load_bond_data loads df w) = Inl (JSONDecodeError s) \<longrightarrow>
      (\<exists>pre col post. bond_json_columns = pre @ col # post \<and>
         col \<in> set (columns (heap w df)) \<and>
         PStr s \<in> set (getitem col (heap w df)) \<and> malformed loads (PStr s) \<and>
         snd (load_bond_data loads df w) =
           w\<lparr>heap := (heap w)(df := map_cells (json_value loads) pre (heap w df))\<rparr>)) \<and>
   (\<forall>s. fst (load_company_data loads df w) = Inl (JSONDecodeError s) \<longrightarrow>
      (\<exists>pre col post. company_json_columns = pre @ col # post \<and>
         col \<in> set (columns (heap w df)) \<and>
         PStr s \<in> set (getitem col (heap w df)) \<and> malformed loads (PStr s) \<and>
         snd (load_company_data loads df w) =
           w\<lparr>heap := (heap w)(df := map_cells (json_value loads) pre (heap w df))\<rparr>))"
  using load_bond_data_Inr(2) [of loads df w] load_company_data_Inr(2) [of loads df w]
    load_cashflow_data_Inr(2) [of strptime number df w]
    load_json_failed(1) [of loads df w] load_json_failed(2) [of loads df w]
  by blast

theorem loads_in_place_witness:
  "(rows (heap (snd (load_bond_data loads_sample 0 example_world)) 0) ! 0) ''issuer_details'' =
     PList [PNum 1] \<and>
   (rows (heap (snd (load_cashflow_data strptime_sample number_sample 1 example_world)) 1) ! 0)
     ''cash_flow_date'' = PDate (Date 2023 3 5) \<and>
   fst (load_company_data loads_sample 2
         (snd (load_company_data loads_sample 0 example_loaded))) =
     Inl (JSONDecodeError ''oops'') \<and>
   loader (snd (load_company_data loads_sample 2
         (snd (load_company_data loads_sample 0 example_loaded)))) =
     loader (snd (load_company_data loads_sample 0 example_loaded)) \<and>
   heap (snd (load_company_data loads_sample 2
         (snd (load_company_data loads_sample 0 example_loaded)))) 0 =
     heap (snd (load_company_data loads_sample 0 example_loaded)) 0"
proof -
  define w where "w = snd (load_company_data loads_sample 0 example_loaded)"
  have h: "heap w 2 = heap example_loaded 2"
    by (simp add: w_def example_bonds_as_companies)
  have f: "fst (load_company_data loads_sample 2 w) = Inl (JSONDecodeError ''oops'')"
    using example_company_reparse
    by (simp add: load_company_data_def h examples_required)
  have b: "fst (load_bond_data loads_sample 0 example_world) = Inr ()"
    by (simp add: example_bond_load)
  have c: "fst (load_cashflow_data strptime_sample number_sample 1 example_world) = Inr ()"
    by (simp add: load_cashflow_data_ok examples_required)
  have 1: "(rows (heap (snd (load_bond_data loads_sample 0 example_world)) 0) ! 0)
      ''issuer_details'' = PList [PNum 1]"
    using loads_in_place [of loads_sample 0 example_world strptime_sample number_sample] b
    by (simp add: map_cells_def example_bonds_def frame_def bond_required_columns_def
        bond_json_columns_def json_value_def loads_sample_def isspace_def)
  have 2: "(rows (heap (snd (load_cashflow_data strptime_sample number_sample 1 example_world))
      1) ! 0) ''cash_flow_date'' = PDate (Date 2023 3 5)"
    using loads_in_place [of loads_sample 1 example_world strptime_sample number_sample] c
    by (simp add: normalized_cashflows_def map_cells_def example_cashflows_def frame_def
        date_columns_def numeric_columns_def to_datetime_def strptime_sample_def)
  have 3: "loader (snd (load_company_data loads_sample 2 w)) = loader w \<and>
      heap (snd (load_company_data loads_sample 2 w)) 0 = heap w 0"
    using loads_in_place [of loads_sample 2 w strptime_sample number_sample] f
    by auto
  show ?thesis
    using 1 2 3 f unfolding w_def [symmetric] by simp
qed

text \<open>
  The claim as stated says the stored table is unchanged whenever a load raises. Loading
  the stored bond table again resets \<^verbatim>\<open>issuer_details\<close> and \<^verbatim>\<open>instrument_details\<close> to empty
  dicts and raises on \<^verbatim>\<open>coupon_details\<close>: the caller's table is the stored table, and it
  has changed.
\<close>

theorem failed_reload_changes_stored_bonds:
  "bond_details (loader example_loaded) = Some 0 \<and>
   (rows (heap example_loaded 0) ! 0) ''issuer_details'' = PList [PNum 1] \<and>
   fst (load_bond_data loads_sample 0 example_loaded) = Inl (JSONDecodeError ''oops'') \<and>
   bond_details (loader (snd (load_bond_data loads_sample 0 example_loaded))) = Some 0 \<and>
   (rows (heap (snd (load_bond_data loads_sample 0 example_loaded)) 0) ! 0) ''issuer_details'' =
     PDict [] \<and>
   bond_table (snd (load_bond_data loads_sample 0 example_loaded)) \<noteq> bond_table example_loaded"
proof -
  have a: "(rows (heap example_loaded 0) ! 0) ''issuer_details'' = PList [PNum 1]"
    by (simp add: map_cells_def example_bonds_def frame_def bond_required_columns_def
        bond_json_columns_def json_value_def loads_sample_def isspace_def)
  have b: "(rows (heap (snd (load_bond_data loads_sample 0 example_loaded)) 0) ! 0)
      ''issuer_details'' = PDict []"
    by (simp add: example_bond_reload map_cells_def example_bonds_def frame_def
        bond_required_columns_def bond_json_columns_def json_value_def loads_sample_def
        isspace_def)
  have "heap (snd (load_bond_data loads_sample 0 example_loaded)) 0 \<noteq> heap example_loaded 0"
    using a b by auto
  then have c: "bond_table (snd (load_bond_data loads_sample 0 example_loaded)) \<noteq>
     bond_table example_loaded"
    by (simp add: bond_table_def example_bond_reload)
  show ?thesis using a b c by (simp add: example_bond_reload)
qed

end
